theory Spec2Isabelle
  imports Complex_Main
begin

section \<open>JavaScript values\<close>

text \<open>
  A request body is what \<^verbatim>\<open>JSON.parse\<close> returns. A number is the rational it denotes
  (a finite double is one); a property that is absent reads as \<^verbatim>\<open>undefined\<close>, which
  is \<open>None\<close> of \<open>json option\<close>.
\<close>

datatype json =
    JNull
  | JBool bool
  | JNum rat
  | JStr string
  | JArr "json list"
  | JObj "(string \<times> json) list"

text \<open>\<^verbatim>\<open>typeof v === 'string'\<close>.\<close>

fun is_string :: "json \<Rightarrow> bool" where
  "is_string (JStr s) = True"
| "is_string v = False"

text \<open>
  ToBoolean, the test behind \<^verbatim>\<open>!v\<close>, \<^verbatim>\<open>v ? a : b\<close> and \<^verbatim>\<open>v || d\<close>: \<^verbatim>\<open>null\<close>,
  \<^verbatim>\<open>false\<close>, \<^verbatim>\<open>0\<close> and the empty string are falsy, every array and object is truthy.
\<close>

fun truthy :: "json \<Rightarrow> bool" where
  "truthy JNull = False"
| "truthy (JBool b) = b"
| "truthy (JNum n) = (n \<noteq> 0)"
| "truthy (JStr s) = (s \<noteq> [])"
| "truthy (JArr xs) = True"
| "truthy (JObj kvs) = True"

text \<open>The same test on a property that may be absent: \<^verbatim>\<open>undefined\<close> is falsy.\<close>

fun truthy_prop :: "json option \<Rightarrow> bool" where
  "truthy_prop None = False"
| "truthy_prop (Some v) = truthy v"

section \<open>The time window validator (server.js, validateHour)\<close>

text \<open>The character class \<^verbatim>\<open>\d\<close> of a JavaScript regular expression: the ten ASCII digits.\<close>

definition is_digit :: "char \<Rightarrow> bool" where
  "is_digit c = (c \<in> set ''0123456789'')"

definition digit_val :: "char \<Rightarrow> nat" where
  "digit_val c = of_char c - 48"

text \<open>
  \<^verbatim>\<open>parseInt(s, 10)\<close> on a string with no leading white space or sign: the value of the
  longest prefix of digits, and \<^verbatim>\<open>NaN\<close> (here \<open>None\<close>) when that prefix is empty.
\<close>

definition parseInt10 :: "string \<Rightarrow> nat option" where
  "parseInt10 s =
     (let ds = takeWhile is_digit s
      in if ds = [] then None else Some (foldl (\<lambda>n c. 10 * n + digit_val c) 0 ds))"

text \<open>
  \<^verbatim>\<open>time.match(/^([0-2]\d):([0-5]\d)$/)\<close>: the two captured groups, or \<open>None\<close> for
  \<^verbatim>\<open>null\<close>. Without the \<^verbatim>\<open>m\<close> flag \<^verbatim>\<open>$\<close> is the end of the input, so a match is exactly
  five characters long.
\<close>

fun match_hour :: "string \<Rightarrow> (string \<times> string) option" where
  "match_hour [a, b, c, d, e] =
     (if a \<in> set ''012'' \<and> is_digit b \<and> c = CHR '':'' \<and> d \<in> set ''012345'' \<and> is_digit e
      then Some ([a, b], [d, e]) else None)"
| "match_hour s = None"

text \<open>
  \<^verbatim>\<open>
  function validateHour(time) {
    if (typeof time !== 'string') return false;
    const match = time.match(/^([0-2]\d):([0-5]\d)$/);
    if (!match) return false;
    const hh = parseInt(match[1], 10);
    const mm = parseInt(match[2], 10);
    const minutes = hh * 60 + mm;
    const start = 6 * 60; // 06:00
    const end = 18 * 60; // 18:00
    return minutes >= start && minutes <= end;
  }
  \<close>
  A comparison with \<^verbatim>\<open>NaN\<close> is false.
\<close>

fun validateHour :: "json \<Rightarrow> bool" where
  "validateHour (JStr time) =
     (case match_hour time of
        None \<Rightarrow> False
      | Some (g1, g2) \<Rightarrow>
          (case (parseInt10 g1, parseInt10 g2) of
             (Some hh, Some mm) \<Rightarrow>
               (let minutes = hh * 60 + mm; start = 6 * 60; end = 18 * 60
                in minutes \<ge> start \<and> minutes \<le> end)
           | _ \<Rightarrow> False))"
| "validateHour v = False"

text \<open>
  The appointment form has a validator of its own (Agendamento.jsx, the second document
  of src/src/Navbar.jsx, 88-98), which it runs before it posts the request to the server.
  It is the function above but for the pattern, whose first hour digit is optional:
  \<^verbatim>\<open>
  function validateHour(time) {
    if (typeof time !== 'string') return false;
    const m = time.match(/^([0-2]?\d):([0-5]\d)$/);
    if (!m) return false;
    const hh = parseInt(m[1], 10);
    const mm = parseInt(m[2], 10);
    const minutes = hh * 60 + mm;
    const start = 6 * 60;
    const end = 18 * 60;
    return minutes >= start && minutes <= end;
  }
  \<close>
  A match is five characters long with both hour digits, or four with one.
\<close>

fun match_hour_form :: "string \<Rightarrow> (string \<times> string) option" where
  "match_hour_form [a, b, c, d, e] =
     (if a \<in> set ''012'' \<and> is_digit b \<and> c = CHR '':'' \<and> d \<in> set ''012345'' \<and> is_digit e
      then Some ([a, b], [d, e]) else None)"
| "match_hour_form [b, c, d, e] =
     (if is_digit b \<and> c = CHR '':'' \<and> d \<in> set ''012345'' \<and> is_digit e
      then Some ([b], [d, e]) else None)"
| "match_hour_form s = None"

fun validateHour_form :: "json \<Rightarrow> bool" where
  "validateHour_form (JStr time) =
     (case match_hour_form time of
        None \<Rightarrow> False
      | Some (g1, g2) \<Rightarrow>
          (case (parseInt10 g1, parseInt10 g2) of
             (Some hh, Some mm) \<Rightarrow>
               (let minutes = hh * 60 + mm; start = 6 * 60; end = 18 * 60
                in minutes \<ge> start \<and> minutes \<le> end)
           | _ \<Rightarrow> False))"
| "validateHour_form v = False"

section \<open>The credential verifier (server.js, hashPassword, checkPassword, verifyPassword)\<close>

text \<open>
  bcryptjs is a library, not code of this repository: its two entry points are parameters.
  A promise that rejects is \<open>None\<close>, one that resolves with \<open>v\<close> is \<open>Some v\<close>.
  \<^item> \<open>bcrypt_hash password saltRounds\<close> is what \<^verbatim>\<open>bcrypt.hash\<close> hands its callback:
    \<open>None\<close> for \<^verbatim>\<open>err\<close>, else the digest;
  \<^item> \<open>bcrypt_compare password hash\<close> is what \<^verbatim>\<open>bcrypt.compare\<close> hands its callback:
    \<open>None\<close> for \<^verbatim>\<open>err\<close>, else \<^verbatim>\<open>same\<close>.
\<close>

type_synonym hasher = "string \<Rightarrow> nat \<Rightarrow> string option"
type_synonym comparer = "string \<Rightarrow> string \<Rightarrow> bool option"

text \<open>
  \<^verbatim>\<open>
  function hashPassword(password) {
    const saltRounds = 10;
    return new Promise((resolve, reject) => {
      bcrypt.hash(password, saltRounds, (err, hash) => {
        if (err) return reject(err);
        resolve(hash);
      });
    });
  }
  \<close>
\<close>

definition hashPassword :: "hasher \<Rightarrow> string \<Rightarrow> string option" where
  "hashPassword bcrypt_hash password = (let saltRounds = 10 in bcrypt_hash password saltRounds)"

text \<open>
  \<^verbatim>\<open>
  function checkPassword(password, hash) {
    return new Promise((resolve, reject) => {
      bcrypt.compare(password, hash, (err, same) => {
        if (err) return reject(err);
        resolve(same);
      });
    });
  }
  \<close>
\<close>

definition checkPassword :: "comparer \<Rightarrow> string \<Rightarrow> string \<Rightarrow> bool option" where
  "checkPassword bcrypt_compare password hash = bcrypt_compare password hash"

text \<open>What a handler did besides answering: its calls of the password check, in order.\<close>

datatype event =
    VerifyPassword string string  \<comment> \<open>\<^verbatim>\<open>verifyPassword(stored, provided)\<close> was called\<close>
  | BcryptCompare string string   \<comment> \<open>\<^verbatim>\<open>checkPassword(provided, stored)\<close> was called\<close>

text \<open>
  The helper local to the login handler (server.js 279-287). It returns whether the
  password matches, and the bcrypt comparisons it ran.
  \<^verbatim>\<open>
  const verifyPassword = (stored, provided) => {
    return new Promise((resolve) => {
      if (stored === provided) return resolve(true); // senha em texto
      // tenta comparar com bcrypt (hash)
      checkPassword(provided, stored)
        .then((ok) => resolve(!!ok))
        .catch(() => resolve(false));
    });
  };
  \<close>
\<close>

definition verifyPassword :: "comparer \<Rightarrow> string \<Rightarrow> string \<Rightarrow> bool \<times> event list" where
  "verifyPassword bcrypt_compare stored provided =
     (if stored = provided then (True, [])
      else (case checkPassword bcrypt_compare provided stored of
              Some ok \<Rightarrow> (ok, [BcryptCompare provided stored])
            | None \<Rightarrow> (False, [BcryptCompare provided stored])))"

text \<open>
  The test the start-up code applies to the administrator's stored password
  (server.js 99, \<^verbatim>\<open>pwd.startsWith('$2')\<close>): the prefix of every bcrypt digest.
\<close>

definition looks_hashed :: "string \<Rightarrow> bool" where
  "looks_hashed pwd = (take 2 pwd = ''$2'')"

text \<open>
  The check as the specification words it, for comparison with \<open>verifyPassword\<close>: the
  format of the stored value selects the mode, bcrypt for a value with the digest prefix
  and string equality for any other.
\<close>

definition verify_by_format :: "comparer \<Rightarrow> string \<Rightarrow> string \<Rightarrow> bool \<times> event list" where
  "verify_by_format bcrypt_compare stored provided =
     (if looks_hashed stored
      then (case checkPassword bcrypt_compare provided stored of
              Some ok \<Rightarrow> (ok, [BcryptCompare provided stored])
            | None \<Rightarrow> (False, [BcryptCompare provided stored]))
      else (stored = provided, []))"

section \<open>The store\<close>

text \<open>
  The two tables of server.js 38-64, a row as a record of its columns. A text column of
  \<open>users\<close> holds a string, as the data model of the specification has it; \<open>cpf\<close> alone is
  left \<^verbatim>\<open>NULL\<close> by the start-up code, so it is optional. A text column of \<open>schedules\<close>
  holds what the store made of the value bound to it, a string or \<^verbatim>\<open>NULL\<close> (\<open>None\<close>).
\<close>

record user =
  u_id :: int
  u_name :: string
  u_email :: string
  u_password :: string
  u_cpf :: "string option"
  u_is_admin :: int
  u_approved :: int

record schedule =
  s_id :: int
  s_lawyer :: "string option"
  s_client :: "string option"
  s_process_number :: "string option"
  s_online :: int
  s_date :: "string option"
  s_time :: "string option"
  s_notes :: "string option"

text \<open>
  What becomes of a JavaScript value bound to a parameter of an \<^verbatim>\<open>INSERT\<close> into a text
  column: the driver refuses it and the statement errs, or the column holds \<^verbatim>\<open>NULL\<close>, or
  it holds a text. A string is stored as the text it is. What the driver and the column's
  type affinity make of any other value (a number is turned into its decimal text, for
  one) is not code of this repository: it is a parameter, \<open>affinity\<close>.
\<close>

datatype bound = Unbindable | SqlNull | SqlText string

type_synonym affinity = "json \<Rightarrow> bound"

fun bind_text :: "affinity \<Rightarrow> json \<Rightarrow> bound" where
  "bind_text aff (JStr s) = SqlText s"
| "bind_text aff v = aff v"

fun column :: "bound \<Rightarrow> string option" where
  "column (SqlText s) = Some s"
| "column b = None"

text \<open>
  The database: the rows of each table in rowid order, the largest rowid each
  \<^verbatim>\<open>AUTOINCREMENT\<close> table has ever given out (SQLite's \<^verbatim>\<open>sqlite_sequence\<close>), and the
  two ways the driver comes to hand an \<^verbatim>\<open>err\<close> to the callback of a statement whatever
  the statement says: \<open>db_error\<close>, a store that cannot be read or written, on which every
  statement errs, and \<open>db_full\<close>, a store with no room left (\<^verbatim>\<open>SQLITE_FULL\<close>), on which an
  \<^verbatim>\<open>INSERT\<close> errs and the other statements do not. A statement that errs changes nothing.
\<close>

record db =
  users :: "user list"
  schedules :: "schedule list"
  users_seq :: int
  schedules_seq :: int
  db_error :: bool
  db_full :: bool

text \<open>The largest rowid SQLite has, 9223372036854775807.\<close>

definition max_rowid :: int where
  "max_rowid = 2 ^ 63 - 1"

text \<open>
  The rowid an \<^verbatim>\<open>INTEGER PRIMARY KEY AUTOINCREMENT\<close> column gives a new row, from the
  sequence value and the rowids in the table: one more than the largest the table holds
  (1 for an empty table) or has ever held. When the largest is \<open>max_rowid\<close> there is none,
  and the \<^verbatim>\<open>INSERT\<close> errs with \<^verbatim>\<open>SQLITE_FULL\<close>.
\<close>

definition next_rowid :: "int \<Rightarrow> int list \<Rightarrow> int option" where
  "next_rowid seq ids =
     (if seq = max_rowid \<or> (ids \<noteq> [] \<and> Max (set ids) \<ge> max_rowid) then None
      else Some (max (if ids = [] then 1 else Max (set ids) + 1) (seq + 1)))"

text \<open>
  \<^verbatim>\<open>this.lastID\<close> is a JavaScript number, a double. An integer of at most 53 bits is one
  exactly; a larger one is rounded to 53 significant bits, to even on a tie. \<open>ulp n\<close> is
  the distance between the doubles around \<open>n\<close>. (A rowid has 63 bits, so no number here
  is too large to be finite.)
\<close>

function ulp :: "nat \<Rightarrow> nat" where
  "ulp n = (if n < 2 ^ 53 then 1 else 2 * ulp (n div 2))"
  by pat_completeness auto
termination
  by (relation "measure (\<lambda>n. n)") auto

declare ulp.simps [simp del]

definition js_number :: "int \<Rightarrow> int" where
  "js_number n =
     (let a = nat \<bar>n\<bar>; u = ulp a; q = a div u; r = a mod u;
          m = (if 2 * r < u \<or> (2 * r = u \<and> even q) then q * u else (q + 1) * u)
      in if n < 0 then - int m else int m)"

text \<open>
  A statement \<^verbatim>\<open>... WHERE id = ?\<close> compares the bound JavaScript value with the integer
  key column. How the driver binds a value and how SQLite compares it is not code of this
  repository: \<open>rowid_of v\<close>, a parameter, is the one key that \<open>v\<close> equals, if any.
\<close>

type_synonym key_resolver = "json \<Rightarrow> int option"

section \<open>Requests and responses\<close>

text \<open>
  The properties the handlers read from a parsed body, \<open>None\<close> when the body does not have
  the property. The text properties of a user are optional strings; every other property
  is an optional JSON value.
\<close>

record body =
  b_id :: "json option"
  b_name :: "string option"
  b_email :: "string option"
  b_password :: "string option"
  b_cpf :: "string option"
  b_approved :: "json option"
  b_is_admin :: "json option"
  b_lawyer :: "json option"
  b_client :: "json option"
  b_process_number :: "json option"
  b_online :: "json option"
  b_date :: "json option"
  b_time :: "json option"
  b_notes :: "json option"

text \<open>\<^verbatim>\<open>!s\<close> on a text property: absent and empty are falsy.\<close>

fun present :: "string option \<Rightarrow> bool" where
  "present None = False"
| "present (Some s) = (s \<noteq> [])"

text \<open>\<^verbatim>\<open>s || ''\<close> on a text property.\<close>

fun or_empty :: "string option \<Rightarrow> string" where
  "or_empty None = []"
| "or_empty (Some s) = s"

text \<open>\<^verbatim>\<open>v || ''\<close> on a JSON property: the value when it is truthy, else the empty string.\<close>

fun or_empty_text :: "json option \<Rightarrow> json" where
  "or_empty_text None = JStr []"
| "or_empty_text (Some v) = (if truthy v then v else JStr [])"

text \<open>
  What \<^verbatim>\<open>parseBody\<close> (server.js 153-178) settles with: it rejects on a body that is not
  JSON or is too large, resolves with \<^verbatim>\<open>null\<close> on an empty body, else with the parsed
  value. A parsed value that is falsy is \<open>Resolved None\<close>, as the handlers test \<^verbatim>\<open>!body\<close>.
\<close>

datatype parsed = Rejected | Resolved "body option"

text \<open>The \<^verbatim>\<open>error\<close> texts of the responses, by what they say.\<close>

datatype error =
    BodyRejected              \<comment> \<open>the message of the rejected parse\<close>
  | EmailPasswordRequired     \<comment> \<open>400, login without email or password\<close>
  | InternalError             \<comment> \<open>500, Erro interno\<close>
  | UserNotFound              \<comment> \<open>404\<close>
  | AwaitingApproval          \<comment> \<open>403, Aguardando aprovacao\<close>
  | WrongPassword             \<comment> \<open>401, Senha incorreta\<close>
  | IdRequired                \<comment> \<open>400, Campo id e requerido\<close>
  | NameEmailPasswordRequired \<comment> \<open>400\<close>
  | EmailTaken                \<comment> \<open>409, Email ja cadastrado\<close>
  | ParamMissing              \<comment> \<open>400, Parametro nao informado\<close>
  | ScheduleNotFound          \<comment> \<open>404, Agendamento nao encontrado\<close>
  | BodyRequired              \<comment> \<open>400, Body requerido\<close>
  | RequiredFieldsMissing     \<comment> \<open>400, Campos obrigatorios ausentes\<close>
  | InvalidHour               \<comment> \<open>400, Horario invalido (deve ser entre 06:00 e 18:00)\<close>
  | OnlineRequired            \<comment> \<open>400, Campo online requerido\<close>
  | IdMissing                 \<comment> \<open>400, ID nao informado\<close>

text \<open>The JSON a handler sends, and the response: the status code with it.\<close>

datatype reply =
    Error error
  | LoggedIn int string string int      \<comment> \<open>success, user: id, name, email, is_admin\<close>
  | Approved                            \<comment> \<open>success, Usuario aprovado\<close>
  | UserCreated int bool                \<comment> \<open>success, id, and whether the message says approved\<close>
  | ScheduleFound schedule              \<comment> \<open>schedule: the row\<close>
  | SchedulesOfDate string "schedule list"
  | ScheduleCreated int                 \<comment> \<open>success, id\<close>
  | ScheduleUpdated string int          \<comment> \<open>success, id as the path has it, online\<close>

type_synonym response = "nat \<times> reply"

section \<open>The user handlers (server.js)\<close>

text \<open>
  Each handler is a function of the database and of what \<^verbatim>\<open>parseBody\<close> settled with.
  The branches are those of the source, in its order; \<^verbatim>\<open>if (err)\<close> in the callback of a
  statement is \<open>db_error\<close>. For a property found present, \<open>or_empty\<close> is its value.
\<close>

text \<open>
  \<^verbatim>\<open>POST /login\<close>, server.js 250-309. The row is the first with the email
  (\<^verbatim>\<open>db.get('SELECT ... FROM users WHERE email = ?', [email], ...)\<close>); then
  \<^verbatim>\<open>if (!row)\<close> answers 404, \<^verbatim>\<open>if (row.approved === 0)\<close> answers 403, and only then
  \<^verbatim>\<open>verifyPassword(row.password, password)\<close> runs: 401 when it does not match, else 200
  with \<^verbatim>\<open>is_admin: row.is_admin === 1 ? 1 : 0\<close>.
\<close>

definition login :: "comparer \<Rightarrow> db \<Rightarrow> parsed \<Rightarrow> response \<times> event list" where
  "login bcrypt_compare d p =
     (case p of
        Rejected \<Rightarrow> ((400, Error BodyRejected), [])
      | Resolved None \<Rightarrow> ((400, Error EmailPasswordRequired), [])
      | Resolved (Some body) \<Rightarrow>
          if \<not> present (b_email body) \<or> \<not> present (b_password body)
          then ((400, Error EmailPasswordRequired), [])
          else
            let email = or_empty (b_email body); password = or_empty (b_password body)
            in if db_error d then ((500, Error InternalError), [])
               else (case find (\<lambda>u. u_email u = email) (users d) of
                       None \<Rightarrow> ((404, Error UserNotFound), [])
                     | Some row \<Rightarrow>
                         if u_approved row = 0 then ((403, Error AwaitingApproval), [])
                         else
                           (case verifyPassword bcrypt_compare (u_password row) password of
                              (match, evs) \<Rightarrow>
                                (if \<not> match then (401, Error WrongPassword)
                                 else (200, LoggedIn (u_id row) (u_name row) (u_email row)
                                              (if u_is_admin row = 1 then 1 else 0)),
                                 VerifyPassword (u_password row) password # evs))))"

text \<open>
  \<^verbatim>\<open>PUT /users/approve\<close>, server.js 340-355:
  \<^verbatim>\<open>
  if (!body || typeof body.id === 'undefined') return sendJSON(res, {...}, 400);
  const id = body.id;
  db.run('UPDATE users SET approved = 1 WHERE id = ?', [id], function (err) {
    if (err) { ... return sendJSON(res, { error: 'Erro interno' }, 500); }
    if (this.changes === 0) return sendJSON(res, {...}, 404);
    return sendJSON(res, { success: true, message: ... }, 200);
  });
  \<close>
  \<^verbatim>\<open>this.changes\<close> counts the rows the \<^verbatim>\<open>WHERE\<close> clause selects, whether or not the
  value written differs from the one they held.
\<close>

definition approve :: "key_resolver \<Rightarrow> db \<Rightarrow> parsed \<Rightarrow> response \<times> db" where
  "approve rowid_of d p =
     (case p of
        Rejected \<Rightarrow> ((400, Error BodyRejected), d)
      | Resolved None \<Rightarrow> ((400, Error IdRequired), d)
      | Resolved (Some body) \<Rightarrow>
          (case b_id body of
             None \<Rightarrow> ((400, Error IdRequired), d)
           | Some idv \<Rightarrow>
               if db_error d then ((500, Error InternalError), d)
               else
                 let hit = (\<lambda>u. rowid_of idv = Some (u_id u));
                     changes = length (filter hit (users d));
                     d' = d\<lparr>users := map (\<lambda>u. if hit u then u\<lparr>u_approved := 1\<rparr> else u) (users d)\<rparr>
                 in if changes = 0 then ((404, Error UserNotFound), d')
                    else ((200, Approved), d')))"

text \<open>
  \<^verbatim>\<open>body.approved === 1 || body.approved === '1' ? 1 : 0\<close> (server.js 426-427), the
  same for \<^verbatim>\<open>is_admin\<close>.
\<close>

definition flag :: "json option \<Rightarrow> int" where
  "flag v = (if v = Some (JNum 1) \<or> v = Some (JStr ''1'') then 1 else 0)"

text \<open>
  \<^verbatim>\<open>INSERT INTO users (name, email, password, cpf, approved, is_admin) VALUES (...)\<close> and
  what its callback receives: \<open>None\<close> for \<^verbatim>\<open>err2\<close>, else \<^verbatim>\<open>this.lastID\<close>'s rowid and the
  database with the row appended. The statement errs on a store that errs or is full,
  when a row has the email already (the column is \<^verbatim>\<open>UNIQUE\<close>), and when the table has no
  rowid left.
\<close>

definition insert_user ::
  "db \<Rightarrow> string \<Rightarrow> string \<Rightarrow> string \<Rightarrow> string \<Rightarrow> int \<Rightarrow> int \<Rightarrow> (int \<times> db) option" where
  "insert_user d name email password cpf approved is_admin =
     (if db_error d \<or> db_full d \<or> list_ex (\<lambda>u. u_email u = email) (users d) then None
      else (case next_rowid (users_seq d) (map u_id (users d)) of
              None \<Rightarrow> None
            | Some rowid \<Rightarrow>
                Some (rowid,
                      d\<lparr>users := users d @
                             [\<lparr>u_id = rowid, u_name = name, u_email = email,
                               u_password = password, u_cpf = Some cpf,
                               u_is_admin = is_admin, u_approved = approved\<rparr>],
                         users_seq := rowid\<rparr>)))"

text \<open>
  \<^verbatim>\<open>POST /users\<close>, server.js 404-451. The handler runs two statements, one in the
  callback of the other, with the hash of the password in between; statements of other
  requests can run between the two. It is modelled in two steps, each on the database as
  it is when the step's statement runs.

  The first step: the 400 for a missing name, email or password, then
  \<^verbatim>\<open>db.get('SELECT id FROM users WHERE email = ?', [email], (err, row) => { ... })\<close>, which
  answers 500 when it errs and 409 when a row has the email, and else goes on to the
  second step with what its closure holds: name, email, password, cpf and
  \<^verbatim>\<open>
  const approvedFlag = body.approved === 1 || body.approved === '1' ? 1 : 0;
  const adminFlag = body.is_admin === 1 || body.is_admin === '1' ? 1 : 0;
  \<close>
\<close>

datatype lookup =
    Answered response
  | Inserting string string string "string option" int int
      \<comment> \<open>name, email, password, cpf, approvedFlag, adminFlag\<close>

definition create_user_lookup :: "db \<Rightarrow> parsed \<Rightarrow> lookup" where
  "create_user_lookup d p =
     (case p of
        Rejected \<Rightarrow> Answered (400, Error BodyRejected)
      | Resolved None \<Rightarrow> Answered (400, Error NameEmailPasswordRequired)
      | Resolved (Some body) \<Rightarrow>
          if \<not> present (b_name body) \<or> \<not> present (b_email body) \<or> \<not> present (b_password body)
          then Answered (400, Error NameEmailPasswordRequired)
          else
            let name = or_empty (b_name body); email = or_empty (b_email body);
                password = or_empty (b_password body); cpf = b_cpf body
            in if db_error d then Answered (500, Error InternalError)
               else (case find (\<lambda>u. u_email u = email) (users d) of
                       Some row \<Rightarrow> Answered (409, Error EmailTaken)
                     | None \<Rightarrow>
                         let approvedFlag = flag (b_approved body);
                             adminFlag = flag (b_is_admin body)
                         in Inserting name email password cpf approvedFlag adminFlag))"

text \<open>
  The second step: the password is hashed (500 when that rejects) and the row is
  inserted:
  \<^verbatim>\<open>
  hashPassword(password).then((hash) => {
    db.run('INSERT INTO users (name, email, password, cpf, approved, is_admin) VALUES (...)',
           [name, email, hash, cpf || '', approvedFlag, adminFlag], function (err2) {
             if (err2) { ... return sendJSON(res, { error: 'Erro interno' }, 500); }
             const msg = approvedFlag === 1 ? ... : ...;
             return sendJSON(res, { success: true, id: this.lastID, message: msg }, 201); })
  }).catch((e) => { ... return sendJSON(res, { error: 'Erro interno' }, 500); });
  \<close>
\<close>

definition create_user_insert ::
  "hasher \<Rightarrow> db \<Rightarrow> string \<Rightarrow> string \<Rightarrow> string \<Rightarrow> string option \<Rightarrow> int \<Rightarrow> int \<Rightarrow> response \<times> db" where
  "create_user_insert bcrypt_hash d name email password cpf approvedFlag adminFlag =
     (case hashPassword bcrypt_hash password of
        None \<Rightarrow> ((500, Error InternalError), d)
      | Some hash \<Rightarrow>
          (case insert_user d name email hash (or_empty cpf) approvedFlag adminFlag of
             None \<Rightarrow> ((500, Error InternalError), d)
           | Some (rowid, d') \<Rightarrow>
               ((201, UserCreated (js_number rowid) (approvedFlag = 1)), d')))"

text \<open>A request handled with no statement of another request between its two steps.\<close>

definition create_user :: "hasher \<Rightarrow> db \<Rightarrow> parsed \<Rightarrow> response \<times> db" where
  "create_user bcrypt_hash d p =
     (case create_user_lookup d p of
        Answered r \<Rightarrow> (r, d)
      | Inserting name email password cpf approvedFlag adminFlag \<Rightarrow>
          create_user_insert bcrypt_hash d name email password cpf approvedFlag adminFlag)"

section \<open>The schedule handlers (server.js)\<close>

text \<open>
  \<^verbatim>\<open>INSERT INTO schedules (lawyer, client, process_number, online, date, time, notes)
  VALUES (?, ?, ?, ?, ?, ?, ?)\<close> and what its callback receives: \<open>None\<close> for \<^verbatim>\<open>err\<close>, else
  \<^verbatim>\<open>this.lastID\<close>'s rowid and the database with the row appended. The statement errs on a
  store that errs or is full, when the driver refuses one of the values, and when the
  table has no rowid left.
\<close>

definition insert_schedule ::
  "db \<Rightarrow> bound \<Rightarrow> bound \<Rightarrow> bound \<Rightarrow> int \<Rightarrow> bound \<Rightarrow> bound \<Rightarrow> bound \<Rightarrow> (int \<times> db) option" where
  "insert_schedule d lawyer client process_number online date time notes =
     (if db_error d \<or> db_full d \<or>
         Unbindable \<in> set [lawyer, client, process_number, date, time, notes] then None
      else (case next_rowid (schedules_seq d) (map s_id (schedules d)) of
              None \<Rightarrow> None
            | Some rowid \<Rightarrow>
                Some (rowid,
                      d\<lparr>schedules := schedules d @
                             [\<lparr>s_id = rowid, s_lawyer = column lawyer, s_client = column client,
                               s_process_number = column process_number, s_online = online,
                               s_date = column date, s_time = column time,
                               s_notes = column notes\<rparr>],
                         schedules_seq := rowid\<rparr>)))"

text \<open>
  \<^verbatim>\<open>POST /schedules\<close>, server.js 505-527:
  \<^verbatim>\<open>
  if (!body) return sendJSON(res, { error: 'Body requerido' }, 400);
  const { lawyer, client, process_number, online, date, time, notes } = body;
  if (!lawyer || !client || !date || !time) return sendJSON(res, {...}, 400);
  if (!validateHour(time)) return sendJSON(res, {...}, 400);
  db.run('INSERT INTO schedules (...) VALUES (?, ?, ?, ?, ?, ?, ?)',
    [lawyer, client, process_number || '', online ? 1 : 0, date, time, notes || ''],
    function (err) {
      if (err) { ... return sendJSON(res, { error: 'Erro interno' }, 500); }
      return sendJSON(res, { success: true, ..., id: this.lastID }, 201); });
  \<close>
  A property the body does not have is \<^verbatim>\<open>undefined\<close>, which is falsy.
\<close>

definition create_schedule :: "affinity \<Rightarrow> db \<Rightarrow> parsed \<Rightarrow> response \<times> db" where
  "create_schedule aff d p =
     (case p of
        Rejected \<Rightarrow> ((400, Error BodyRejected), d)
      | Resolved None \<Rightarrow> ((400, Error BodyRequired), d)
      | Resolved (Some body) \<Rightarrow>
          (case (b_lawyer body, b_client body, b_date body, b_time body) of
             (Some lawyer, Some client, Some date, Some time) \<Rightarrow>
               if \<not> truthy lawyer \<or> \<not> truthy client \<or> \<not> truthy date \<or> \<not> truthy time
               then ((400, Error RequiredFieldsMissing), d)
               else if \<not> validateHour time then ((400, Error InvalidHour), d)
               else
                 (case insert_schedule d (bind_text aff lawyer) (bind_text aff client)
                         (bind_text aff (or_empty_text (b_process_number body)))
                         (if truthy_prop (b_online body) then 1 else 0)
                         (bind_text aff date) (bind_text aff time)
                         (bind_text aff (or_empty_text (b_notes body))) of
                    None \<Rightarrow> ((500, Error InternalError), d)
                  | Some (rowid, d') \<Rightarrow> ((201, ScheduleCreated (js_number rowid)), d'))
           | _ \<Rightarrow> ((400, Error RequiredFieldsMissing), d)))"

text \<open>\<^verbatim>\<open>/^\d+$/.test(param)\<close>.\<close>

definition all_digits :: "string \<Rightarrow> bool" where
  "all_digits param = (param \<noteq> [] \<and> list_all is_digit param)"

text \<open>
  \<^verbatim>\<open>GET /schedules/:id\<close> and \<^verbatim>\<open>GET /schedules/:date\<close>, server.js 472-501; \<open>param\<close> is
  the second segment of the path. A numeric \<open>param\<close> is an id
  (\<^verbatim>\<open>db.get('SELECT * FROM schedules WHERE id = ?', [id], ...)\<close>, 404 without a row),
  any other is a date (\<^verbatim>\<open>db.all('SELECT * FROM schedules WHERE date = ?', ...)\<close>).
\<close>

definition get_schedule :: "key_resolver \<Rightarrow> db \<Rightarrow> string \<Rightarrow> response" where
  "get_schedule rowid_of d param =
     (if param = [] then (400, Error ParamMissing)
      else if all_digits param then
        (if db_error d then (500, Error InternalError)
         else (case find (\<lambda>s. rowid_of (JStr param) = Some (s_id s)) (schedules d) of
                 None \<Rightarrow> (404, Error ScheduleNotFound)
               | Some row \<Rightarrow> (200, ScheduleFound row)))
      else
        (if db_error d then (500, Error InternalError)
         else (200, SchedulesOfDate param
                      (filter (\<lambda>s. s_date s = Some param) (schedules d)))))"

text \<open>
  \<^verbatim>\<open>PUT /schedules/:id\<close>, server.js 546-566; \<open>idp\<close> is the second segment of the path:
  \<^verbatim>\<open>
  if (!id) return sendJSON(res, {...}, 400);
  return parseBody(req).then((body) => {
    if (!body) return sendJSON(res, { error: 'Body requerido' }, 400);
    // (only the field 'online' may be updated for now)
    const online = typeof body.online !== 'undefined' ? (body.online ? 1 : 0) : null;
    if (online === null) return sendJSON(res, { error: 'Campo online requerido' }, 400);
    db.run('UPDATE schedules SET online = ? WHERE id = ?', [online, id], function (err) {
      if (err) { ... 500 }
      if (this.changes === 0) return sendJSON(res, {...}, 404);
      return sendJSON(res, { success: true, id: id, online }, 200);
    });
  })
  \<close>
\<close>

definition update_schedule :: "key_resolver \<Rightarrow> db \<Rightarrow> string \<Rightarrow> parsed \<Rightarrow> response \<times> db" where
  "update_schedule rowid_of d idp p =
     (if idp = [] then ((400, Error IdMissing), d)
      else
        (case p of
           Rejected \<Rightarrow> ((400, Error BodyRejected), d)
         | Resolved None \<Rightarrow> ((400, Error BodyRequired), d)
         | Resolved (Some body) \<Rightarrow>
             (case b_online body of
                None \<Rightarrow> ((400, Error OnlineRequired), d)
              | Some v \<Rightarrow>
                  let online = (if truthy v then 1 else 0)
                  in if db_error d then ((500, Error InternalError), d)
                     else
                       let hit = (\<lambda>s. rowid_of (JStr idp) = Some (s_id s));
                           changes = length (filter hit (schedules d));
                           d' = d\<lparr>schedules :=
                                   map (\<lambda>s. if hit s then s\<lparr>s_online := online\<rparr> else s) (schedules d)\<rparr>
                       in if changes = 0 then ((404, Error ScheduleNotFound), d')
                          else ((200, ScheduleUpdated idp online), d'))))"

section \<open>The calendar projection (Home.jsx)\<close>


definition DaysInYear :: "int \<Rightarrow> int" where
  "DaysInYear y =
     (if y mod 4 \<noteq> 0 then 365 else if y mod 100 \<noteq> 0 then 366
      else if y mod 400 \<noteq> 0 then 365 else 366)"

definition DayFromYear :: "int \<Rightarrow> int" where
  "DayFromYear y =
     365 * (y - 1970) + (y - 1969) div 4 - (y - 1901) div 100 + (y - 1601) div 400"

definition InLeapYear :: "int \<Rightarrow> int" where
  "InLeapYear y = (if DaysInYear y = 366 then 1 else 0)"

text \<open>
  The first day of the next year is the year's length later: the arithmetic fact that
  makes the search for the year of a day terminate.
\<close>

lemma div_step:
  fixes y c :: int
  assumes c: "0 < c"
  shows "(y + 1) div c - y div c = (if (y + 1) mod c = 0 then 1 else 0)"
proof -
  have e: "y + 1 = c * ((y + 1) div c) + (y + 1) mod c"
    by simp
  show ?thesis
  proof (cases "(y + 1) mod c = 0")
    case True
    then have "y = c * ((y + 1) div c - 1) + (c - 1)"
      using e by (simp add: algebra_simps)
    then have "y div c = (y + 1) div c - 1"
      using c by (intro int_div_pos_eq [where r = "c - 1"]) simp_all
    with True show ?thesis by simp
  next
    case False
    have lo: "0 \<le> (y + 1) mod c - 1"
      using c False pos_mod_sign [of c "y + 1"] by linarith
    have hi: "(y + 1) mod c - 1 < c"
      using c pos_mod_bound [of c "y + 1"] by linarith
    have "y = c * ((y + 1) div c) + ((y + 1) mod c - 1)"
      using e by (simp add: algebra_simps)
    then have "y div c = (y + 1) div c"
      using lo hi by (rule int_div_pos_eq)
    with False show ?thesis by simp
  qed
qed

lemma shift_mod: "(y - k * c) mod c = y mod c" for y k c :: int
  by (metis mod_mult_self1 diff_conv_add_uminus mult_minus_left)

lemma DayFromYear_step: "DayFromYear (y + 1) = DayFromYear y + DaysInYear y"
proof -
  have m4: "((y - 1968) mod 4 = 0) = (y mod 4 = 0)"
    using shift_mod [of y 492 4] by simp
  have m100: "((y - 1900) mod 100 = 0) = (y mod 100 = 0)"
    using shift_mod [of y 19 100] by simp
  have m400: "((y - 1600) mod 400 = 0) = (y mod 400 = 0)"
    using shift_mod [of y 4 400] by simp
  have mm: "y mod 400 = 0 \<Longrightarrow> y mod 100 = 0" "y mod 100 = 0 \<Longrightarrow> y mod 4 = 0"
    by (simp_all add: mod_eq_0_iff_dvd, (erule dvd_trans [rotated], simp)+)
  have a: "(y + 1 - 1969) div 4 = (y - 1969) div 4 + (if y mod 4 = 0 then 1 else 0)"
    using div_step [of 4 "y - 1969"] by (simp add: m4)
  have b: "(y + 1 - 1901) div 100 = (y - 1901) div 100 + (if y mod 100 = 0 then 1 else 0)"
    using div_step [of 100 "y - 1901"] by (simp add: m100)
  have c: "(y + 1 - 1601) div 400 = (y - 1601) div 400 + (if y mod 400 = 0 then 1 else 0)"
    using div_step [of 400 "y - 1601"] by (simp add: m400)
  show ?thesis
    unfolding DayFromYear_def DaysInYear_def a b c using mm by auto
qed

lemma DaysInYear_bounds: "365 \<le> DaysInYear y \<and> DaysInYear y \<le> 366"
  by (simp add: DaysInYear_def)

text \<open>
  YearFromTime is the largest year whose first day is not after the day. The search
  goes up from a year that is not after it: a year has at most 366 days and at least 365.
\<close>

function year_search :: "int \<Rightarrow> int \<Rightarrow> int" where
  "year_search y d = (if DayFromYear (y + 1) \<le> d then year_search (y + 1) d else y)"
  by pat_completeness auto
termination
proof (relation "measure (\<lambda>(y, d). nat (d + 1 - DayFromYear (y + 1)))")
  show "wf (measure (\<lambda>(y, d). nat (d + 1 - DayFromYear (y + 1))))"
    by simp
next
  fix y d :: int
  assume "DayFromYear (y + 1) \<le> d"
  moreover have "DayFromYear (y + 1) < DayFromYear (y + 1 + 1)"
    using DayFromYear_step [of "y + 1"] DaysInYear_bounds [of "y + 1"] by linarith
  ultimately show "((y + 1, d), (y, d)) \<in> measure (\<lambda>(y, d). nat (d + 1 - DayFromYear (y + 1)))"
    by simp
qed

declare year_search.simps [simp del]

definition YearFromDay :: "int \<Rightarrow> int" where
  "YearFromDay d = year_search (1970 + (if 0 \<le> d then d div 366 else d div 365)) d"

definition DayWithinYear :: "int \<Rightarrow> int" where
  "DayWithinYear d = d - DayFromYear (YearFromDay d)"







definition WeekDay :: "int \<Rightarrow> int" where
  "WeekDay d = (d + 4) mod 7"














text \<open>
  The string of a number that is an integer or \<^verbatim>\<open>NaN\<close> (\<^verbatim>\<open>String(n)\<close>, and a number in a
  template or added to a string): the decimal digits, after a minus sign when negative.
\<close>

fun digits :: "nat \<Rightarrow> string" where
  "digits n = (if n < 10 then [char_of (48 + n)] else digits (n div 10) @ [char_of (48 + n mod 10)])"

declare digits.simps [simp del]

fun String :: "int option \<Rightarrow> string" where
  "String None = ''NaN''"
| "String (Some n) = (if n < 0 then CHR ''-'' # digits (nat (- n)) else digits (nat n))"







section \<open>Sample data\<close>

text \<open>
  A small database and stand-ins for the library and store parameters, on which the
  theorems below are exercised: an approved administrator whose password is stored as a
  digest, a registration awaiting approval, and an approved user with a legacy plain-text
  password.
\<close>

definition sample_users :: "user list" where
  "sample_users =
     [\<lparr>u_id = 1, u_name = ''Admin'', u_email = ''admin@admin.com'',
       u_password = ''$2a$10$N9qo8uLOickgx2ZMRZoMye'', u_cpf = None,
       u_is_admin = 1, u_approved = 1\<rparr>,
      \<lparr>u_id = 2, u_name = ''Ana'', u_email = ''ana@example.com'',
       u_password = ''$2a$10$7EqJtq98hPqEX7fNZaFWoO'', u_cpf = Some ''111'',
       u_is_admin = 0, u_approved = 0\<rparr>,
      \<lparr>u_id = 3, u_name = ''Bob'', u_email = ''bob@example.com'',
       u_password = ''legacy'', u_cpf = Some [],
       u_is_admin = 0, u_approved = 1\<rparr>]"

definition sample_schedules :: "schedule list" where
  "sample_schedules =
     [\<lparr>s_id = 1, s_lawyer = Some ''Bob'', s_client = Some ''Carla'',
       s_process_number = Some ''0001'', s_online = 0, s_date = Some ''2024-02-01'',
       s_time = Some ''09:30'', s_notes = Some []\<rparr>,
      \<lparr>s_id = 4, s_lawyer = Some ''Bob'', s_client = Some ''Dario'',
       s_process_number = Some [], s_online = 1, s_date = Some ''2024-02-14'',
       s_time = Some ''14:00'', s_notes = Some ''first visit''\<rparr>]"

definition sample_db :: db where
  "sample_db = \<lparr>users = sample_users, schedules = sample_schedules,
                 users_seq = 3, schedules_seq = 5, db_error = False,
                 db_full = False\<rparr>"

text \<open>A comparison that knows one password, the administrator's.\<close>

definition sample_compare :: comparer where
  "sample_compare password hash =
     Some (password = ''admin'' \<and> hash = ''$2a$10$N9qo8uLOickgx2ZMRZoMye'')"

text \<open>A hash that always succeeds; the digest prefix before the password stands for it.\<close>

definition sample_hash :: hasher where
  "sample_hash password saltRounds = Some (''$2a$10$'' @ password)"

text \<open>
  A key comparison, for numbers and for decimal texts: an integral number is its own
  key, a string of digits is the key it spells, nothing else is a key.
\<close>

fun sample_rowid :: key_resolver where
  "sample_rowid (JNum n) = (if of_int \<lfloor>n\<rfloor> = n then Some \<lfloor>n\<rfloor> else None)"
| "sample_rowid (JStr s) = (if all_digits s then map_option int (parseInt10 s) else None)"
| "sample_rowid v = None"

text \<open>
  A type affinity, for numbers and booleans: an integral number is stored as its decimal
  text, a boolean as 1 or 0, \<^verbatim>\<open>null\<close> as \<^verbatim>\<open>NULL\<close>; any other value is refused.
\<close>

fun sample_affinity :: affinity where
  "sample_affinity (JNum n) =
     (if of_int \<lfloor>n\<rfloor> = n then SqlText (String (Some \<lfloor>n\<rfloor>)) else Unbindable)"
| "sample_affinity (JBool b) = SqlText (if b then ''1'' else ''0'')"
| "sample_affinity JNull = SqlNull"
| "sample_affinity v = Unbindable"


text \<open>The body with no property, \<^verbatim>\<open>{}\<close>.\<close>

definition empty_body :: body where
  "empty_body = \<lparr>b_id = None, b_name = None, b_email = None, b_password = None,
                  b_cpf = None, b_approved = None, b_is_admin = None, b_lawyer = None,
                  b_client = None, b_process_number = None, b_online = None,
                  b_date = None, b_time = None, b_notes = None\<rparr>"

section \<open>Properties of the time window validator\<close>

lemma parseInt10_two_digits:
  "is_digit a \<Longrightarrow> is_digit b \<Longrightarrow> parseInt10 [a, b] = Some (10 * digit_val a + digit_val b)"
  by (simp add: parseInt10_def)

lemma match_hour_length: "match_hour s = Some g \<Longrightarrow> length s = 5"
  by (induction s rule: match_hour.induct) simp_all

lemma match_hour_shape:
  "match_hour s = Some g \<Longrightarrow>
     \<exists>a b d e. s = [a, b, CHR '':'', d, e] \<and> a \<in> set ''012'' \<and> is_digit b \<and>
       d \<in> set ''012345'' \<and> is_digit e"
  by (induction s rule: match_hour.induct) (simp_all split: if_splits)

lemma validateHour_length: "validateHour (JStr s) \<Longrightarrow> length s = 5"
  by (auto split: option.splits dest: match_hour_length)

lemma validateHour_pattern:
  assumes "a \<in> set ''012''" "is_digit b" "d \<in> set ''012345''" "is_digit e"
  shows "validateHour (JStr [a, b, CHR '':'', d, e]) =
           (360 \<le> (10 * digit_val a + digit_val b) * 60 + (10 * digit_val d + digit_val e) \<and>
            (10 * digit_val a + digit_val b) * 60 + (10 * digit_val d + digit_val e) \<le> 1080)"
proof -
  have da: "is_digit a" and dd: "is_digit d"
    using assms(1,3) by (auto simp: is_digit_def)
  have m: "match_hour [a, b, CHR '':'', d, e] = Some ([a, b], [d, e])"
    using assms by simp
  show ?thesis
    unfolding validateHour.simps m
    by (simp add: Let_def parseInt10_two_digits [OF da assms(2)]
        parseInt10_two_digits [OF dd assms(4)])
qed

text \<open>
  C1. A string of the shape HH:MM (first hour digit 0 to 2, first minute digit 0 to 5) is
  accepted exactly when its hour times 60 plus its minute lies between 360 and 1080;
  06:00 and 18:00 are accepted, 05:59 and 18:01 are not; a value that is not a string,
  and a string that is not of this shape, is answered with false. The validator is a total
  function to the booleans: no input makes it raise.
\<close>

theorem validateHour_window:
  "(\<forall>a b d e. a \<in> set ''012'' \<and> is_digit b \<and> d \<in> set ''012345'' \<and> is_digit e \<longrightarrow>
      validateHour (JStr [a, b, CHR '':'', d, e]) =
        (360 \<le> (10 * digit_val a + digit_val b) * 60 + (10 * digit_val d + digit_val e) \<and>
         (10 * digit_val a + digit_val b) * 60 + (10 * digit_val d + digit_val e) \<le> 1080))
   \<and> validateHour (JStr ''06:00'') \<and> validateHour (JStr ''18:00'')
   \<and> \<not> validateHour (JStr ''05:59'') \<and> \<not> validateHour (JStr ''18:01'')
   \<and> (\<forall>v. \<not> is_string v \<longrightarrow> \<not> validateHour v)
   \<and> (\<forall>s. \<not> (\<exists>a b d e. s = [a, b, CHR '':'', d, e] \<and> a \<in> set ''012'' \<and> is_digit b \<and>
                d \<in> set ''012345'' \<and> is_digit e) \<longrightarrow> \<not> validateHour (JStr s))"
proof (intro conjI allI impI)
  fix a b d e
  assume "a \<in> set ''012'' \<and> is_digit b \<and> d \<in> set ''012345'' \<and> is_digit e"
  then show "validateHour (JStr [a, b, CHR '':'', d, e]) =
        (360 \<le> (10 * digit_val a + digit_val b) * 60 + (10 * digit_val d + digit_val e) \<and>
         (10 * digit_val a + digit_val b) * 60 + (10 * digit_val d + digit_val e) \<le> 1080)"
    using validateHour_pattern by blast
next
  show "validateHour (JStr ''06:00'')"
    by (simp add: is_digit_def parseInt10_def digit_val_def)
next
  show "validateHour (JStr ''18:00'')"
    by (simp add: is_digit_def parseInt10_def digit_val_def)
next
  show "\<not> validateHour (JStr ''05:59'')"
    by (simp add: is_digit_def parseInt10_def digit_val_def)
next
  show "\<not> validateHour (JStr ''18:01'')"
    by (simp add: is_digit_def parseInt10_def digit_val_def)
next
  fix v
  assume "\<not> is_string v"
  then show "\<not> validateHour v"
    by (cases v) simp_all
next
  fix s
  assume n: "\<not> (\<exists>a b d e. s = [a, b, CHR '':'', d, e] \<and> a \<in> set ''012'' \<and> is_digit b \<and>
                d \<in> set ''012345'' \<and> is_digit e)"
  have "match_hour s = None"
  proof (cases "match_hour s")
    case (Some g)
    then show ?thesis using n match_hour_shape by blast
  qed simp
  then show "\<not> validateHour (JStr s)"
    by simp
qed

theorem validateHour_window_witness:
  "validateHour (JStr ''09:30'') \<and> \<not> validateHour (JNum 930) \<and> \<not> validateHour (JStr ''0930'')"
proof -
  have d: "CHR ''0'' \<in> set ''012'' \<and> is_digit CHR ''9'' \<and> CHR ''3'' \<in> set ''012345'' \<and>
      is_digit CHR ''0''"
    by (simp add: is_digit_def)
  have v: "(360::nat) \<le> (10 * digit_val CHR ''0'' + digit_val CHR ''9'') * 60 +
         (10 * digit_val CHR ''3'' + digit_val CHR ''0'') \<and>
       (10 * digit_val CHR ''0'' + digit_val CHR ''9'') * 60 +
         (10 * digit_val CHR ''3'' + digit_val CHR ''0'') \<le> (1080::nat)"
    by (simp add: digit_val_def)
  have n: "\<not> is_string (JNum 930)"
    by simp
  have s: "\<not> (\<exists>a b d e. ''0930'' = [a, b, CHR '':'', d, e] \<and> a \<in> set ''012'' \<and> is_digit b \<and>
              d \<in> set ''012345'' \<and> is_digit e)"
    by simp
  from validateHour_window d v n s show ?thesis
    by blast
qed

text \<open>
  C4. The server's validator does not tolerate a single-digit hour: it rejects 9:30,
  which the validator of the appointment form, with the lenient pattern, accepts. The two
  agree on the same time written 09:30.
\<close>

theorem validateHour_rejects_what_the_form_accepts:
  "\<not> validateHour (JStr ''9:30'') \<and> validateHour_form (JStr ''9:30'')
   \<and> validateHour (JStr ''09:30'') \<and> validateHour_form (JStr ''09:30'')"
  by (simp add: is_digit_def parseInt10_def digit_val_def)

section \<open>Properties of the credential verifier\<close>

lemma verifyPassword_equal: "verifyPassword cmp s s = (True, [])"
  by (simp add: verifyPassword_def)

lemma verifyPassword_result:
  "fst (verifyPassword cmp stored provided) = (stored = provided \<or> cmp provided stored = Some True)"
  by (auto simp: verifyPassword_def checkPassword_def split: option.splits)

lemma verifyPassword_events:
  "snd (verifyPassword cmp stored provided) =
     (if stored = provided then [] else [BcryptCompare provided stored])"
  by (simp add: verifyPassword_def split: option.splits)

text \<open>
  C3, as the specification states it, fails in both directions. A stored value with the
  digest prefix, presented as the password, is accepted by string equality with no bcrypt
  comparison run (one that would have answered no), where selection by format runs the
  comparison and refuses. And against a stored plain text a wrong password is sent to the
  bcrypt comparison, where selection by format runs none.
\<close>

theorem verifyPassword_not_by_format:
  "looks_hashed ''$2a$10$N9qo8uLOickgx2ZMRZoMye''
   \<and> verifyPassword (\<lambda>p h. Some False)
        ''$2a$10$N9qo8uLOickgx2ZMRZoMye'' ''$2a$10$N9qo8uLOickgx2ZMRZoMye'' = (True, [])
   \<and> verify_by_format (\<lambda>p h. Some False)
        ''$2a$10$N9qo8uLOickgx2ZMRZoMye'' ''$2a$10$N9qo8uLOickgx2ZMRZoMye''
      = (False, [BcryptCompare ''$2a$10$N9qo8uLOickgx2ZMRZoMye'' ''$2a$10$N9qo8uLOickgx2ZMRZoMye''])
   \<and> \<not> looks_hashed ''admin''
   \<and> verifyPassword (\<lambda>p h. Some False) ''admin'' ''guess''
      = (False, [BcryptCompare ''guess'' ''admin''])
   \<and> verify_by_format (\<lambda>p h. Some False) ''admin'' ''guess'' = (False, [])"
  by (simp add: verifyPassword_def verify_by_format_def looks_hashed_def checkPassword_def)

text \<open>
  C3, amended. The check does not look at the format of the stored value. It accepts
  exactly when the provided password is string-equal to the stored value or, failing
  that, the bcrypt comparison reports a match (a comparison that errs counts as no
  match); and it runs the bcrypt comparison exactly when the two strings differ, whatever
  the stored value looks like.
\<close>

theorem verifyPassword_equality_then_bcrypt:
  "fst (verifyPassword cmp stored provided) = (stored = provided \<or> cmp provided stored = Some True)
   \<and> snd (verifyPassword cmp stored provided) =
       (if stored = provided then [] else [BcryptCompare provided stored])"
  by (simp only: verifyPassword_result verifyPassword_events simp_thms)

theorem verifyPassword_equality_then_bcrypt_witness:
  "fst (verifyPassword (\<lambda>p h. Some (p = ''secret'' \<and> h = ''$2a$10$abc'')) ''$2a$10$abc'' ''secret'')
   \<and> snd (verifyPassword (\<lambda>p h. Some (p = ''secret'' \<and> h = ''$2a$10$abc'')) ''$2a$10$abc'' ''secret'')
       = [BcryptCompare ''secret'' ''$2a$10$abc'']"
  using verifyPassword_equality_then_bcrypt
    [of "\<lambda>p h. Some (p = ''secret'' \<and> h = ''$2a$10$abc'')" "''$2a$10$abc''" "''secret''"]
  by simp

section \<open>Properties of the login handler\<close>

lemma login_found:
  assumes "present (b_email body)" "present (b_password body)" "\<not> db_error d"
    and "find (\<lambda>u. u_email u = or_empty (b_email body)) (users d) = Some row"
    and "u_approved row \<noteq> 0"
  shows "login cmp d (Resolved (Some body)) =
           ((if fst (verifyPassword cmp (u_password row) (or_empty (b_password body)))
             then (200, LoggedIn (u_id row) (u_name row) (u_email row)
                          (if u_is_admin row = 1 then 1 else 0))
             else (401, Error WrongPassword)),
            VerifyPassword (u_password row) (or_empty (b_password body)) #
              snd (verifyPassword cmp (u_password row) (or_empty (b_password body))))"
  using assms by (simp add: login_def Let_def split: prod.splits)

lemma login_absent:
  assumes "present (b_email body)" "present (b_password body)" "\<not> db_error d"
    and "find (\<lambda>u. u_email u = or_empty (b_email body)) (users d) = None"
  shows "login cmp d (Resolved (Some body)) = ((404, Error UserNotFound), [])"
  using assms by (simp add: login_def Let_def)

lemma login_unapproved:
  assumes "present (b_email body)" "present (b_password body)" "\<not> db_error d"
    and "find (\<lambda>u. u_email u = or_empty (b_email body)) (users d) = Some row"
    and "u_approved row = 0"
  shows "login cmp d (Resolved (Some body)) = ((403, Error AwaitingApproval), [])"
  using assms by (simp add: login_def Let_def)

lemma login_verifies_only_approved:
  assumes "snd (login cmp d p) \<noteq> [] \<or> fst (fst (login cmp d p)) = 401"
  shows "\<exists>body row. p = Resolved (Some body) \<and>
           find (\<lambda>u. u_email u = or_empty (b_email body)) (users d) = Some row \<and>
           u_approved row \<noteq> 0"
  using assms
  by (auto simp: login_def Let_def split: parsed.splits option.splits if_splits prod.splits)

text \<open>
  C2. For a login request with email and password, answered by a store that does not
  err: without a row for the email the answer is 404; with a row whose approved flag is 0
  it is 403, whatever the password and whatever the bcrypt comparison would say; with an
  approved row whose password check fails it is 401. Whenever the answer is 401, or the
  password check was run at all, there is a row for the email and it is approved: an
  absent or unapproved user is never answered 401 and never has a password verified.
\<close>

theorem login_check_order:
  assumes "present (b_email body)" and "present (b_password body)" and "\<not> db_error d"
  shows "(find (\<lambda>u. u_email u = or_empty (b_email body)) (users d) = None \<longrightarrow>
            login cmp d (Resolved (Some body)) = ((404, Error UserNotFound), []))
       \<and> (\<forall>row. find (\<lambda>u. u_email u = or_empty (b_email body)) (users d) = Some row \<and>
                  u_approved row = 0 \<longrightarrow>
            login cmp d (Resolved (Some body)) = ((403, Error AwaitingApproval), []))
       \<and> (\<forall>row. find (\<lambda>u. u_email u = or_empty (b_email body)) (users d) = Some row \<and>
                  u_approved row \<noteq> 0 \<and>
                  \<not> fst (verifyPassword cmp (u_password row) (or_empty (b_password body))) \<longrightarrow>
            fst (login cmp d (Resolved (Some body))) = (401, Error WrongPassword))
       \<and> (fst (fst (login cmp d (Resolved (Some body)))) = 401 \<or>
          snd (login cmp d (Resolved (Some body))) \<noteq> [] \<longrightarrow>
            (\<exists>row. find (\<lambda>u. u_email u = or_empty (b_email body)) (users d) = Some row \<and>
                   u_approved row \<noteq> 0))"
proof (intro conjI allI impI)
  assume "find (\<lambda>u. u_email u = or_empty (b_email body)) (users d) = None"
  with assms show "login cmp d (Resolved (Some body)) = ((404, Error UserNotFound), [])"
    by (rule login_absent)
next
  fix row
  assume "find (\<lambda>u. u_email u = or_empty (b_email body)) (users d) = Some row \<and>
          u_approved row = 0"
  with assms show "login cmp d (Resolved (Some body)) = ((403, Error AwaitingApproval), [])"
    by (simp add: login_unapproved)
next
  fix row
  assume "find (\<lambda>u. u_email u = or_empty (b_email body)) (users d) = Some row \<and>
          u_approved row \<noteq> 0 \<and>
          \<not> fst (verifyPassword cmp (u_password row) (or_empty (b_password body)))"
  with assms show "fst (login cmp d (Resolved (Some body))) = (401, Error WrongPassword)"
    by (simp add: login_found)
next
  assume "fst (fst (login cmp d (Resolved (Some body)))) = 401 \<or>
          snd (login cmp d (Resolved (Some body))) \<noteq> []"
  then have "snd (login cmp d (Resolved (Some body))) \<noteq> [] \<or>
             fst (fst (login cmp d (Resolved (Some body)))) = 401"
    by blast
  from login_verifies_only_approved [OF this]
  show "\<exists>row. find (\<lambda>u. u_email u = or_empty (b_email body)) (users d) = Some row \<and>
              u_approved row \<noteq> 0"
    by auto
qed

lemma sample_find_user:
  "find (\<lambda>u. u_email u = ''nobody@example.com'') sample_users = None"
  "find (\<lambda>u. u_email u = ''ana@example.com'') sample_users = Some (sample_users ! 1)"
  "find (\<lambda>u. u_email u = ''bob@example.com'') sample_users = Some (sample_users ! 2)"
  "find (\<lambda>u. u_email u = ''admin@admin.com'') sample_users = Some (sample_users ! 0)"
  by (simp_all add: sample_users_def)

theorem login_check_order_witness:
  "login sample_compare sample_db
     (Resolved (Some (empty_body\<lparr>b_email := Some ''nobody@example.com'', b_password := Some ''x''\<rparr>)))
     = ((404, Error UserNotFound), [])
   \<and> login sample_compare sample_db
     (Resolved (Some (empty_body\<lparr>b_email := Some ''ana@example.com'', b_password := Some ''x''\<rparr>)))
     = ((403, Error AwaitingApproval), [])
   \<and> fst (login sample_compare sample_db
     (Resolved (Some (empty_body\<lparr>b_email := Some ''bob@example.com'', b_password := Some ''x''\<rparr>))))
     = (401, Error WrongPassword)"
proof -
  have db: "\<not> db_error sample_db" "users sample_db = sample_users"
    by (simp_all add: sample_db_def)
  have v: "\<not> fst (verifyPassword sample_compare ''legacy'' ''x'')"
    by (simp add: verifyPassword_def checkPassword_def sample_compare_def)
  have bob: "u_approved (sample_users ! 2) \<noteq> 0" "u_password (sample_users ! 2) = ''legacy''"
    and ana: "u_approved (sample_users ! 1) = 0"
    by (simp_all add: sample_users_def)
  have p: "present (b_email (empty_body\<lparr>b_email := Some e, b_password := Some ''x''\<rparr>)) = (e \<noteq> [])"
      "present (b_password (empty_body\<lparr>b_email := Some e, b_password := Some ''x''\<rparr>))"
      "or_empty (b_email (empty_body\<lparr>b_email := Some e, b_password := Some ''x''\<rparr>)) = e"
      "or_empty (b_password (empty_body\<lparr>b_email := Some e, b_password := Some ''x''\<rparr>)) = ''x''"
    for e
    by simp_all
  have 1: "login sample_compare sample_db
     (Resolved (Some (empty_body\<lparr>b_email := Some ''nobody@example.com'', b_password := Some ''x''\<rparr>)))
     = ((404, Error UserNotFound), [])"
    using login_check_order [of "empty_body\<lparr>b_email := Some ''nobody@example.com'', b_password := Some ''x''\<rparr>"
          sample_db sample_compare, THEN conjunct1]
    by (simp only: p db sample_find_user) simp
  have 2: "login sample_compare sample_db
     (Resolved (Some (empty_body\<lparr>b_email := Some ''ana@example.com'', b_password := Some ''x''\<rparr>)))
     = ((403, Error AwaitingApproval), [])"
    using login_check_order [of "empty_body\<lparr>b_email := Some ''ana@example.com'', b_password := Some ''x''\<rparr>"
          sample_db sample_compare, THEN conjunct2, THEN conjunct1, rule_format, of "sample_users ! 1"]
    by (simp only: p db sample_find_user ana) simp
  have 3: "fst (login sample_compare sample_db
     (Resolved (Some (empty_body\<lparr>b_email := Some ''bob@example.com'', b_password := Some ''x''\<rparr>))))
     = (401, Error WrongPassword)"
    using login_check_order [of "empty_body\<lparr>b_email := Some ''bob@example.com'', b_password := Some ''x''\<rparr>"
          sample_db sample_compare, THEN conjunct2, THEN conjunct2, THEN conjunct1, rule_format,
          of "sample_users ! 2"] bob(1) v
    by (simp only: p db sample_find_user bob(2)) simp
  from 1 2 3 show ?thesis
    by (intro conjI)
qed

text \<open>
  C10. The password check of the login accepts whenever the provided password is
  string-equal to the stored value, running no bcrypt comparison; a bcrypt comparison is
  run only when the two differ. So a login that presents the stored value itself (for a
  user whose password is stored as a digest: the digest) to an approved user's email
  succeeds, with no bcrypt comparison.
\<close>

theorem login_accepts_stored_value:
  "(\<forall>cmp s p. p = s \<longrightarrow> verifyPassword cmp s p = (True, []))
   \<and> (\<forall>cmp s p. snd (verifyPassword cmp s p) \<noteq> [] \<longrightarrow> s \<noteq> p)
   \<and> (\<forall>cmp d body row.
        present (b_email body) \<and> \<not> db_error d \<and>
        find (\<lambda>u. u_email u = or_empty (b_email body)) (users d) = Some row \<and>
        u_approved row \<noteq> 0 \<and> u_password row \<noteq> [] \<and> b_password body = Some (u_password row) \<longrightarrow>
        login cmp d (Resolved (Some body)) =
          ((200, LoggedIn (u_id row) (u_name row) (u_email row) (if u_is_admin row = 1 then 1 else 0)),
           [VerifyPassword (u_password row) (u_password row)]))"
proof (intro conjI allI impI)
  fix cmp :: comparer and s p :: string
  assume "p = s"
  then show "verifyPassword cmp s p = (True, [])"
    by (simp add: verifyPassword_equal)
next
  fix cmp :: comparer and s p :: string
  assume "snd (verifyPassword cmp s p) \<noteq> []"
  then show "s \<noteq> p"
    by (auto simp: verifyPassword_equal)
next
  fix cmp :: comparer and d :: db and body :: body and row :: user
  assume a: "present (b_email body) \<and> \<not> db_error d \<and>
        find (\<lambda>u. u_email u = or_empty (b_email body)) (users d) = Some row \<and>
        u_approved row \<noteq> 0 \<and> u_password row \<noteq> [] \<and> b_password body = Some (u_password row)"
  then have p: "present (b_password body)" "or_empty (b_password body) = u_password row"
    by simp_all
  from a p(1) have "login cmp d (Resolved (Some body)) =
           ((if fst (verifyPassword cmp (u_password row) (or_empty (b_password body)))
             then (200, LoggedIn (u_id row) (u_name row) (u_email row)
                          (if u_is_admin row = 1 then 1 else 0))
             else (401, Error WrongPassword)),
            VerifyPassword (u_password row) (or_empty (b_password body)) #
              snd (verifyPassword cmp (u_password row) (or_empty (b_password body))))"
    by (intro login_found) simp_all
  then show "login cmp d (Resolved (Some body)) =
          ((200, LoggedIn (u_id row) (u_name row) (u_email row) (if u_is_admin row = 1 then 1 else 0)),
           [VerifyPassword (u_password row) (u_password row)])"
    by (simp add: p(2) verifyPassword_equal)
qed

theorem login_accepts_stored_value_witness:
  "looks_hashed ''$2a$10$N9qo8uLOickgx2ZMRZoMye''
   \<and> sample_compare ''$2a$10$N9qo8uLOickgx2ZMRZoMye'' ''$2a$10$N9qo8uLOickgx2ZMRZoMye'' = Some False
   \<and> login sample_compare sample_db
       (Resolved (Some (empty_body\<lparr>b_email := Some ''admin@admin.com'',
                                   b_password := Some ''$2a$10$N9qo8uLOickgx2ZMRZoMye''\<rparr>)))
     = ((200, LoggedIn 1 ''Admin'' ''admin@admin.com'' 1),
        [VerifyPassword ''$2a$10$N9qo8uLOickgx2ZMRZoMye'' ''$2a$10$N9qo8uLOickgx2ZMRZoMye''])"
proof -
  have db: "\<not> db_error sample_db" "users sample_db = sample_users"
    by (simp_all add: sample_db_def)
  have adm: "u_approved (sample_users ! 0) \<noteq> 0"
    "u_password (sample_users ! 0) = ''$2a$10$N9qo8uLOickgx2ZMRZoMye''"
    "u_id (sample_users ! 0) = 1" "u_name (sample_users ! 0) = ''Admin''"
    "u_email (sample_users ! 0) = ''admin@admin.com''" "u_is_admin (sample_users ! 0) = 1"
    by (simp_all add: sample_users_def)
  have h: "looks_hashed ''$2a$10$N9qo8uLOickgx2ZMRZoMye''"
    "sample_compare ''$2a$10$N9qo8uLOickgx2ZMRZoMye'' ''$2a$10$N9qo8uLOickgx2ZMRZoMye'' = Some False"
    by (simp_all add: looks_hashed_def sample_compare_def)
  have e: "present (b_email (empty_body\<lparr>b_email := Some ''admin@admin.com'',
                b_password := Some ''$2a$10$N9qo8uLOickgx2ZMRZoMye''\<rparr>))"
    "or_empty (b_email (empty_body\<lparr>b_email := Some ''admin@admin.com'',
                b_password := Some ''$2a$10$N9qo8uLOickgx2ZMRZoMye''\<rparr>)) = ''admin@admin.com''"
    "b_password (empty_body\<lparr>b_email := Some ''admin@admin.com'',
                b_password := Some ''$2a$10$N9qo8uLOickgx2ZMRZoMye''\<rparr>)
       = Some (u_password (sample_users ! 0))"
    by (simp_all add: adm(2))
  have f: "find (\<lambda>u. u_email u = or_empty (b_email (empty_body\<lparr>b_email := Some ''admin@admin.com'',
                b_password := Some ''$2a$10$N9qo8uLOickgx2ZMRZoMye''\<rparr>))) (users sample_db)
             = Some (sample_users ! 0)"
    by (simp only: e(2) db(2) sample_find_user)
  have n: "u_password (sample_users ! 0) \<noteq> []"
    by (simp add: adm(2))
  have "login sample_compare sample_db
       (Resolved (Some (empty_body\<lparr>b_email := Some ''admin@admin.com'',
                                   b_password := Some ''$2a$10$N9qo8uLOickgx2ZMRZoMye''\<rparr>)))
     = ((200, LoggedIn (u_id (sample_users ! 0)) (u_name (sample_users ! 0))
               (u_email (sample_users ! 0)) (if u_is_admin (sample_users ! 0) = 1 then 1 else 0)),
        [VerifyPassword (u_password (sample_users ! 0)) (u_password (sample_users ! 0))])"
    using login_accepts_stored_value [THEN conjunct2, THEN conjunct2, rule_format,
        of "empty_body\<lparr>b_email := Some ''admin@admin.com'',
                b_password := Some ''$2a$10$N9qo8uLOickgx2ZMRZoMye''\<rparr>" sample_db "sample_users ! 0"
           sample_compare]
      e(1,3) f db(1) adm(1) n
    by blast
  with h show ?thesis
    by (simp add: adm)
qed

section \<open>Properties of the approval handler\<close>

lemma bex_map_key:
  "(\<And>x. k (f x) = k x) \<Longrightarrow> (\<exists>x\<in>set (map f xs). P (k x)) = (\<exists>x\<in>set xs. P (k x))"
  by simp

lemma approve_eq:
  assumes "b_id body = Some v" and "\<not> db_error d"
  shows "approve r d (Resolved (Some body)) =
           ((if \<exists>u\<in>set (users d). r v = Some (u_id u) then (200, Approved)
             else (404, Error UserNotFound)),
            d\<lparr>users := map (\<lambda>u. if r v = Some (u_id u) then u\<lparr>u_approved := 1\<rparr> else u) (users d)\<rparr>)"
  using assms by (auto simp: approve_def Let_def filter_empty_conv)

lemma approve_keeps_error: "db_error (snd (approve r d p)) = db_error d"
  by (simp add: approve_def Let_def split: parsed.splits option.splits)

lemma approve_twice: "approve r (snd (approve r d p)) p = approve r d p"
proof (cases p)
  case Rejected
  then show ?thesis by (simp add: approve_def)
next
  case (Resolved ob)
  show ?thesis
  proof (cases ob)
    case None
    with Resolved show ?thesis by (simp add: approve_def)
  next
    case (Some body)
    show ?thesis
    proof (cases "b_id body")
      case None
      with Resolved Some show ?thesis by (simp add: approve_def)
    next
      case v: (Some v)
      show ?thesis
      proof (cases "db_error d")
        case True
        with Resolved Some v show ?thesis by (simp add: approve_def)
      next
        case False
        let ?f = "\<lambda>u. if r v = Some (u_id u) then u\<lparr>u_approved := 1\<rparr> else u"
        let ?d' = "d\<lparr>users := map ?f (users d)\<rparr>"
        have e: "\<not> db_error ?d'" using False by simp
        have ff: "map ?f (map ?f (users d)) = map ?f (users d)"
          by (simp add: comp_def)
        have ex: "(\<exists>u\<in>set (map ?f (users d)). r v = Some (u_id u)) =
                  (\<exists>u\<in>set (users d). r v = Some (u_id u))"
          by (rule bex_map_key) simp
        have "approve r ?d' (Resolved (Some body)) =
                ((if \<exists>u\<in>set (users d). r v = Some (u_id u) then (200, Approved)
                  else (404, Error UserNotFound)), ?d')"
          unfolding approve_eq [OF v e] using ex ff by simp
        then show ?thesis
          unfolding Resolved Some approve_eq [OF v False] by simp
      qed
    qed
  qed
qed

text \<open>
  C5. For a request that carries an id, answered by a store that does not err: the
  answer is 404 exactly when no user row has that id, and 200 otherwise; afterwards every
  row with that id has approved = 1, every row keeps its place, a row with that id
  differs from before in its approved flag at most, and every other row and everything
  else in the database is as before. Approving is idempotent: a second identical call
  gives the same answer and the same database as the first (for every request
  whatsoever), and approving rows that are all approved already changes nothing and still
  answers 200.
\<close>

theorem approve_sets_flag_idempotent:
  assumes "b_id body = Some v" and "\<not> db_error d"
  shows "fst (approve r d (Resolved (Some body))) =
           (if \<exists>u\<in>set (users d). r v = Some (u_id u) then (200, Approved)
            else (404, Error UserNotFound))
       \<and> (\<forall>u\<in>set (users (snd (approve r d (Resolved (Some body))))).
            r v = Some (u_id u) \<longrightarrow> u_approved u = 1)
       \<and> length (users (snd (approve r d (Resolved (Some body))))) = length (users d)
       \<and> (\<forall>i<length (users d).
            users (snd (approve r d (Resolved (Some body)))) ! i =
              (if r v = Some (u_id (users d ! i)) then (users d ! i)\<lparr>u_approved := 1\<rparr>
               else users d ! i))
       \<and> (snd (approve r d (Resolved (Some body))))\<lparr>users := users d\<rparr> = d
       \<and> (\<forall>p. approve r (snd (approve r d p)) p = approve r d p)
       \<and> ((\<exists>u\<in>set (users d). r v = Some (u_id u)) \<and>
          (\<forall>u\<in>set (users d). r v = Some (u_id u) \<longrightarrow> u_approved u = 1) \<longrightarrow>
            approve r d (Resolved (Some body)) = ((200, Approved), d))"
proof -
  let ?f = "\<lambda>u. if r v = Some (u_id u) then u\<lparr>u_approved := 1\<rparr> else u"
  note eq = approve_eq [OF assms, of r]
  have 1: "fst (approve r d (Resolved (Some body))) =
           (if \<exists>u\<in>set (users d). r v = Some (u_id u) then (200, Approved)
            else (404, Error UserNotFound))"
    by (simp add: eq)
  have 2: "\<forall>u\<in>set (users (snd (approve r d (Resolved (Some body))))).
            r v = Some (u_id u) \<longrightarrow> u_approved u = 1"
    by (auto simp: eq split: if_splits)
  have 3: "length (users (snd (approve r d (Resolved (Some body))))) = length (users d)"
    by (simp add: eq)
  have 4: "\<forall>i<length (users d).
            users (snd (approve r d (Resolved (Some body)))) ! i =
              (if r v = Some (u_id (users d ! i)) then (users d ! i)\<lparr>u_approved := 1\<rparr>
               else users d ! i)"
    by (simp add: eq)
  have 5: "(snd (approve r d (Resolved (Some body))))\<lparr>users := users d\<rparr> = d"
    by (simp add: eq)
  have 6: "\<forall>p. approve r (snd (approve r d p)) p = approve r d p"
    by (simp add: approve_twice)
  have 7: "(\<exists>u\<in>set (users d). r v = Some (u_id u)) \<and>
          (\<forall>u\<in>set (users d). r v = Some (u_id u) \<longrightarrow> u_approved u = 1) \<longrightarrow>
            approve r d (Resolved (Some body)) = ((200, Approved), d)"
  proof
    assume a: "(\<exists>u\<in>set (users d). r v = Some (u_id u)) \<and>
          (\<forall>u\<in>set (users d). r v = Some (u_id u) \<longrightarrow> u_approved u = 1)"
    then have "map ?f (users d) = map (\<lambda>u. u) (users d)"
      by (intro map_cong) auto
    with a show "approve r d (Resolved (Some body)) = ((200, Approved), d)"
      by (simp add: eq)
  qed
  from 1 2 3 4 5 6 7 show ?thesis
    by (intro conjI)
qed

theorem approve_sets_flag_idempotent_witness:
  "fst (approve sample_rowid sample_db (Resolved (Some (empty_body\<lparr>b_id := Some (JNum 2)\<rparr>))))
     = (200, Approved)
   \<and> map u_approved (users (snd (approve sample_rowid sample_db
        (Resolved (Some (empty_body\<lparr>b_id := Some (JNum 2)\<rparr>)))))) = [1, 1, 1]
   \<and> approve sample_rowid (snd (approve sample_rowid sample_db
        (Resolved (Some (empty_body\<lparr>b_id := Some (JNum 2)\<rparr>)))))
        (Resolved (Some (empty_body\<lparr>b_id := Some (JNum 2)\<rparr>)))
      = approve sample_rowid sample_db (Resolved (Some (empty_body\<lparr>b_id := Some (JNum 2)\<rparr>)))
   \<and> fst (approve sample_rowid sample_db (Resolved (Some (empty_body\<lparr>b_id := Some (JNum 9)\<rparr>))))
     = (404, Error UserNotFound)
   \<and> approve sample_rowid sample_db (Resolved (Some (empty_body\<lparr>b_id := Some (JStr ''3'')\<rparr>)))
     = ((200, Approved), sample_db)"
proof -
  let ?b = "\<lambda>v. empty_body\<lparr>b_id := Some v\<rparr>"
  have b: "b_id (?b v) = Some v" for v
    by simp
  have db: "\<not> db_error sample_db"
    by (simp add: sample_db_def)
  have us: "users sample_db = sample_users" "length sample_users = 3"
    by (simp_all add: sample_db_def sample_users_def)
  have k: "sample_rowid (JNum 2) = Some 2" "sample_rowid (JNum 9) = Some 9"
    "sample_rowid (JStr ''3'') = Some 3"
    by (simp_all add: all_digits_def is_digit_def parseInt10_def digit_val_def)
  have ids: "map u_id sample_users = [1, 2, 3]" "map u_approved sample_users = [1, 0, 1]"
    by (simp_all add: sample_users_def)
  note t2 = approve_sets_flag_idempotent [OF b db, of sample_rowid "JNum 2"]
  note t9 = approve_sets_flag_idempotent [OF b db, of sample_rowid "JNum 9"]
  note t3 = approve_sets_flag_idempotent [OF b db, of sample_rowid "JStr ''3''"]
  have 1: "fst (approve sample_rowid sample_db (Resolved (Some (?b (JNum 2))))) = (200, Approved)"
    using t2 [THEN conjunct1] by (simp add: us k sample_users_def del: sample_rowid.simps)
  have 4: "fst (approve sample_rowid sample_db (Resolved (Some (?b (JNum 9)))))
             = (404, Error UserNotFound)"
    using t9 [THEN conjunct1] by (simp add: us k sample_users_def del: sample_rowid.simps)
  have 3: "approve sample_rowid (snd (approve sample_rowid sample_db (Resolved (Some (?b (JNum 2))))))
        (Resolved (Some (?b (JNum 2))))
      = approve sample_rowid sample_db (Resolved (Some (?b (JNum 2))))"
    using t2 [THEN conjunct2, THEN conjunct2, THEN conjunct2, THEN conjunct2, THEN conjunct2,
        THEN conjunct1] by blast
  have 5: "approve sample_rowid sample_db (Resolved (Some (?b (JStr ''3''))))
     = ((200, Approved), sample_db)"
    using t3 [THEN conjunct2, THEN conjunct2, THEN conjunct2, THEN conjunct2, THEN conjunct2,
        THEN conjunct2] by (simp add: us k sample_users_def del: sample_rowid.simps)
  have l: "length (users (snd (approve sample_rowid sample_db (Resolved (Some (?b (JNum 2))))))) = 3"
    using t2 [THEN conjunct2, THEN conjunct2, THEN conjunct1] by (simp add: us)
  have n: "\<forall>i<3. users (snd (approve sample_rowid sample_db (Resolved (Some (?b (JNum 2)))))) ! i =
              (if sample_rowid (JNum 2) = Some (u_id (sample_users ! i))
               then (sample_users ! i)\<lparr>u_approved := 1\<rparr> else sample_users ! i)"
    using t2 [THEN conjunct2, THEN conjunct2, THEN conjunct2, THEN conjunct1] by (simp add: us)
  have 2: "map u_approved (users (snd (approve sample_rowid sample_db
        (Resolved (Some (?b (JNum 2))))))) = [1, 1, 1]"
    by (rule nth_equalityI) (auto simp: l n k less_Suc_eq numeral_3_eq_3 sample_users_def simp del: sample_rowid.simps)
  from 1 2 3 4 5 show ?thesis
    by (intro conjI)
qed

section \<open>Properties of the store\<close>

lemma next_rowid_fresh: "next_rowid seq ids = Some i \<Longrightarrow> x \<in> set ids \<Longrightarrow> x < i"
proof -
  assume n: "next_rowid seq ids = Some i" and x: "x \<in> set ids"
  from x have "ids \<noteq> []"
    by auto
  with n have "Max (set ids) + 1 \<le> i"
    by (auto simp: next_rowid_def split: if_splits)
  moreover have "x \<le> Max (set ids)"
    using x by simp
  ultimately show ?thesis
    by linarith
qed

lemma ulp_small: "n < 2 ^ 53 \<Longrightarrow> ulp n = 1"
  by (subst ulp.simps) simp

lemma ulp_2_53: "ulp (2 ^ 53) = 2"
  by (subst ulp.simps) (simp add: ulp_small)

lemma js_number_exact:
  assumes "\<bar>n\<bar> \<le> 2 ^ 53"
  shows "js_number n = n"
proof (cases "\<bar>n\<bar> = 2 ^ 53")
  case True
  then have "nat \<bar>n\<bar> = 2 ^ 53"
    by (simp add: nat_eq_iff)
  then have u: "ulp (nat \<bar>n\<bar>) = 2"
    by (simp only: ulp_2_53)
  have a: "nat \<bar>n\<bar> div 2 * 2 = nat \<bar>n\<bar>" "nat \<bar>n\<bar> mod 2 = 0"
    by (simp_all add: \<open>nat \<bar>n\<bar> = 2 ^ 53\<close>)
  have "int (nat \<bar>n\<bar>) = \<bar>n\<bar>"
    by simp
  then show ?thesis
    unfolding js_number_def Let_def u by (simp only: a) simp
next
  case False
  with assms have "nat \<bar>n\<bar> < 2 ^ 53"
    by (simp add: nat_less_iff)
  then show ?thesis
    by (simp add: js_number_def Let_def ulp_small)
qed

lemma find_snoc_new: "find P xs = None \<Longrightarrow> P x \<Longrightarrow> find P (xs @ [x]) = Some x"
  by (induction xs) (auto split: if_splits)

section \<open>Properties of the registration handler\<close>

lemmas create_user_defs = create_user_def create_user_lookup_def create_user_insert_def

lemma insert_user_Some:
  assumes "insert_user d name email password cpf approved is_admin = Some (rowid, d')"
  shows "\<not> db_error d \<and> \<not> db_full d \<and>
         next_rowid (users_seq d) (map u_id (users d)) = Some rowid \<and>
         d' = d\<lparr>users := users d @
                  [\<lparr>u_id = rowid, u_name = name, u_email = email, u_password = password,
                    u_cpf = Some cpf, u_is_admin = is_admin, u_approved = approved\<rparr>],
                users_seq := rowid\<rparr>"
  using assms by (auto simp: insert_user_def split: if_splits option.splits)

lemma insert_user_succeeds:
  assumes "\<not> db_error d" and "\<not> db_full d"
    and "find (\<lambda>u. u_email u = email) (users d) = None"
    and "next_rowid (users_seq d) (map u_id (users d)) = Some rowid"
  shows "insert_user d name email password cpf approved is_admin =
         Some (rowid,
               d\<lparr>users := users d @
                  [\<lparr>u_id = rowid, u_name = name, u_email = email, u_password = password,
                    u_cpf = Some cpf, u_is_admin = is_admin, u_approved = approved\<rparr>],
                users_seq := rowid\<rparr>)"
  using assms by (auto simp: insert_user_def list_ex_iff find_None_iff)

lemma create_user_invalid:
  "\<not> present (b_name body) \<or> \<not> present (b_email body) \<or> \<not> present (b_password body) \<Longrightarrow>
     create_user h d (Resolved (Some body)) = ((400, Error NameEmailPasswordRequired), d)"
  by (auto simp: create_user_defs)

lemma create_user_taken:
  assumes "present (b_name body)" "present (b_email body)" "present (b_password body)"
    and "\<not> db_error d"
    and "find (\<lambda>u. u_email u = or_empty (b_email body)) (users d) = Some row"
  shows "create_user h d (Resolved (Some body)) = ((409, Error EmailTaken), d)"
  using assms by (simp add: create_user_defs Let_def)

lemma create_user_new:
  assumes "present (b_name body)" "present (b_email body)" "present (b_password body)"
    and "\<not> db_error d"
    and "find (\<lambda>u. u_email u = or_empty (b_email body)) (users d) = None"
  shows "create_user h d (Resolved (Some body)) =
     (case h (or_empty (b_password body)) 10 of
        None \<Rightarrow> ((500, Error InternalError), d)
      | Some hash \<Rightarrow>
          (case insert_user d (or_empty (b_name body)) (or_empty (b_email body)) hash
                  (or_empty (b_cpf body)) (flag (b_approved body)) (flag (b_is_admin body)) of
             None \<Rightarrow> ((500, Error InternalError), d)
           | Some (rowid, d') \<Rightarrow>
               ((201, UserCreated (js_number rowid) (flag (b_approved body) = 1)), d')))"
  using assms by (simp add: create_user_defs Let_def hashPassword_def split: option.splits)

lemma create_user_unchanged:
  assumes "create_user h d p = (r, d')" and "fst r \<noteq> 201"
  shows "d' = d"
  using assms
  by (auto simp: create_user_defs Let_def split: parsed.splits option.splits if_splits prod.splits)

lemma create_user_created:
  assumes "create_user h d (Resolved (Some body)) = ((201, UserCreated i a), d')"
  shows "present (b_name body) \<and> present (b_email body) \<and> present (b_password body) \<and>
         \<not> db_error d \<and> \<not> db_full d \<and>
         find (\<lambda>u. u_email u = or_empty (b_email body)) (users d) = None \<and>
         (\<exists>hash rowid.
            h (or_empty (b_password body)) 10 = Some hash \<and>
            next_rowid (users_seq d) (map u_id (users d)) = Some rowid \<and>
            i = js_number rowid \<and> a = (flag (b_approved body) = 1) \<and>
            d' = d\<lparr>users := users d @
                     [\<lparr>u_id = rowid, u_name = or_empty (b_name body),
                       u_email = or_empty (b_email body), u_password = hash,
                       u_cpf = Some (or_empty (b_cpf body)),
                       u_is_admin = flag (b_is_admin body),
                       u_approved = flag (b_approved body)\<rparr>],
                   users_seq := rowid\<rparr>)"
proof -
  from assms have v: "present (b_name body)" "present (b_email body)" "present (b_password body)"
    by (auto simp: create_user_defs split: if_splits)
  from assms v have e: "\<not> db_error d"
    by (auto simp: create_user_defs Let_def split: if_splits)
  from assms v e have f: "find (\<lambda>u. u_email u = or_empty (b_email body)) (users d) = None"
    by (auto simp: create_user_defs Let_def split: option.splits)
  from assms obtain hash rowid where h: "h (or_empty (b_password body)) 10 = Some hash"
    and ins: "insert_user d (or_empty (b_name body)) (or_empty (b_email body)) hash
                (or_empty (b_cpf body)) (flag (b_approved body)) (flag (b_is_admin body))
              = Some (rowid, d')"
    and i: "i = js_number rowid" "a = (flag (b_approved body) = 1)"
    unfolding create_user_new [OF v e f] by (auto split: option.splits)
  from insert_user_Some [OF ins] v e f h i show ?thesis
    by auto
qed

lemma create_user_again:
  assumes c: "create_user h d (Resolved (Some b1)) = ((201, UserCreated i a), d1)"
    and v: "present (b_name b2)" "present (b_password b2)" and e: "b_email b2 = b_email b1"
  shows "create_user h' d1 (Resolved (Some b2)) = ((409, Error EmailTaken), d1)"
proof -
  from create_user_created [OF c] obtain row where
    p: "\<not> db_error d" "present (b_email b1)"
    and d1: "users d1 = users d @ [row]" "db_error d1 = db_error d"
      "u_email row = or_empty (b_email b1)"
    and f: "find (\<lambda>u. u_email u = or_empty (b_email b1)) (users d) = None"
    by auto
  have "find (\<lambda>u. u_email u = or_empty (b_email b2)) (users d1) = Some row"
    using e f d1 by (simp add: find_snoc_new)
  with v e p d1 show ?thesis
    by (intro create_user_taken) simp_all
qed

lemma create_user_lookup_new:
  assumes "present (b_name body)" "present (b_email body)" "present (b_password body)"
    and "\<not> db_error d"
    and "find (\<lambda>u. u_email u = or_empty (b_email body)) (users d) = None"
  shows "create_user_lookup d (Resolved (Some body)) =
           Inserting (or_empty (b_name body)) (or_empty (b_email body))
             (or_empty (b_password body)) (b_cpf body)
             (flag (b_approved body)) (flag (b_is_admin body))"
  using assms by (simp add: create_user_lookup_def Let_def)

lemma create_user_lookup_Inserting:
  assumes "create_user_lookup d (Resolved (Some body)) = Inserting n e pw c ap ad"
  shows "n = or_empty (b_name body) \<and> e = or_empty (b_email body) \<and>
         pw = or_empty (b_password body) \<and> c = b_cpf body \<and>
         ap = flag (b_approved body) \<and> ad = flag (b_is_admin body)"
  using assms
  by (auto simp: create_user_lookup_def Let_def split: if_splits option.splits)

lemma create_user_insert_created:
  assumes "create_user_insert h d n e pw c ap ad = ((201, UserCreated i a), d')"
  shows "\<exists>hash rowid.
           h pw 10 = Some hash \<and>
           next_rowid (users_seq d) (map u_id (users d)) = Some rowid \<and>
           i = js_number rowid \<and> a = (ap = 1) \<and>
           d' = d\<lparr>users := users d @
                    [\<lparr>u_id = rowid, u_name = n, u_email = e, u_password = hash,
                      u_cpf = Some (or_empty c), u_is_admin = ad, u_approved = ap\<rparr>],
                  users_seq := rowid\<rparr>"
proof -
  from assms obtain hash rowid where h: "h pw 10 = Some hash"
    and ins: "insert_user d n e hash (or_empty c) ap ad = Some (rowid, d')"
    and i: "i = js_number rowid" "a = (ap = 1)"
    by (auto simp: create_user_insert_def hashPassword_def split: option.splits)
  from insert_user_Some [OF ins] h i show ?thesis
    by auto
qed

lemma create_user_insert_unchanged:
  assumes "create_user_insert h d n e pw c ap ad = (r, d')" and "fst r \<noteq> 201"
  shows "d' = d"
  using assms by (auto simp: create_user_insert_def split: option.splits)

lemma create_user_insert_taken:
  assumes "find (\<lambda>u. u_email u = e) (users d) = Some row"
  shows "create_user_insert h d n e pw c ap ad = ((500, Error InternalError), d)"
proof -
  have "list_ex (\<lambda>u. u_email u = e) (users d)"
    using assms by (auto simp: list_ex_iff find_Some_iff)
  then show ?thesis
    by (simp add: create_user_insert_def insert_user_def split: option.splits)
qed

lemma create_user_overlap:
  assumes c: "create_user h d (Resolved (Some b1)) = ((201, UserCreated i a), d1)"
    and v: "present (b_name b2)" "present (b_password b2)" and e: "b_email b2 = b_email b1"
  shows "create_user_lookup d (Resolved (Some b2)) =
           Inserting (or_empty (b_name b2)) (or_empty (b_email b2))
             (or_empty (b_password b2)) (b_cpf b2)
             (flag (b_approved b2)) (flag (b_is_admin b2))"
    and "create_user_insert h' d1 (or_empty (b_name b2)) (or_empty (b_email b2))
             (or_empty (b_password b2)) (b_cpf b2)
             (flag (b_approved b2)) (flag (b_is_admin b2)) = ((500, Error InternalError), d1)"
proof -
  from create_user_created [OF c] obtain row where
    p: "\<not> db_error d" "present (b_email b1)"
    and d1: "users d1 = users d @ [row]" "u_email row = or_empty (b_email b1)"
    and f: "find (\<lambda>u. u_email u = or_empty (b_email b1)) (users d) = None"
    by auto
  from v e p f show "create_user_lookup d (Resolved (Some b2)) =
           Inserting (or_empty (b_name b2)) (or_empty (b_email b2))
             (or_empty (b_password b2)) (b_cpf b2)
             (flag (b_approved b2)) (flag (b_is_admin b2))"
    by (intro create_user_lookup_new) simp_all
  have "find (\<lambda>u. u_email u = or_empty (b_email b2)) (users d1) = Some row"
    using e f d1 by (simp add: find_snoc_new)
  then show "create_user_insert h' d1 (or_empty (b_name b2)) (or_empty (b_email b2))
             (or_empty (b_password b2)) (b_cpf b2)
             (flag (b_approved b2)) (flag (b_is_admin b2)) = ((500, Error InternalError), d1)"
    by (rule create_user_insert_taken)
qed

lemma create_user_defaults:
  assumes n: "b_approved body = None" "b_is_admin body = None"
    and l: "create_user_lookup d (Resolved (Some body)) = Inserting nm e pw c ap ad"
    and c: "create_user_insert h d2 nm e pw c ap ad = ((201, UserCreated i a), d')"
  shows "\<not> a \<and>
      (\<exists>row. d' = d2\<lparr>users := users d2 @ [row], users_seq := u_id row\<rparr> \<and>
         u_id row \<notin> set (map u_id (users d2)) \<and> i = js_number (u_id row) \<and>
         u_name row = or_empty (b_name body) \<and> u_email row = or_empty (b_email body) \<and>
         h (or_empty (b_password body)) 10 = Some (u_password row) \<and>
         u_cpf row = Some (or_empty (b_cpf body)) \<and>
         u_approved row = 0 \<and> u_is_admin row = 0)"
proof -
  note k = create_user_lookup_Inserting [OF l]
  from create_user_insert_created [OF c] obtain hash rowid where
    h: "h pw 10 = Some hash"
    and r: "next_rowid (users_seq d2) (map u_id (users d2)) = Some rowid"
    and i: "i = js_number rowid" "a = (ap = 1)"
    and d': "d' = d2\<lparr>users := users d2 @
                     [\<lparr>u_id = rowid, u_name = nm, u_email = e, u_password = hash,
                       u_cpf = Some (or_empty c), u_is_admin = ad, u_approved = ap\<rparr>],
                   users_seq := rowid\<rparr>"
    by blast
  have fresh: "rowid \<notin> set (map u_id (users d2))"
    using next_rowid_fresh [OF r, of rowid] by auto
  let ?row = "\<lparr>u_id = rowid, u_name = nm, u_email = e, u_password = hash,
                u_cpf = Some (or_empty c), u_is_admin = ad, u_approved = ap\<rparr>"
  have "d' = d2\<lparr>users := users d2 @ [?row], users_seq := u_id ?row\<rparr> \<and>
         u_id ?row \<notin> set (map u_id (users d2)) \<and> i = js_number (u_id ?row) \<and>
         u_name ?row = or_empty (b_name body) \<and> u_email ?row = or_empty (b_email body) \<and>
         h (or_empty (b_password body)) 10 = Some (u_password ?row) \<and>
         u_cpf ?row = Some (or_empty (b_cpf body)) \<and>
         u_approved ?row = 0 \<and> u_is_admin ?row = 0"
    using n h i d' fresh k by (simp add: flag_def)
  then have ex: "\<exists>row. d' = d2\<lparr>users := users d2 @ [row], users_seq := u_id row\<rparr> \<and>
         u_id row \<notin> set (map u_id (users d2)) \<and> i = js_number (u_id row) \<and>
         u_name row = or_empty (b_name body) \<and> u_email row = or_empty (b_email body) \<and>
         h (or_empty (b_password body)) 10 = Some (u_password row) \<and>
         u_cpf row = Some (or_empty (b_cpf body)) \<and>
         u_approved row = 0 \<and> u_is_admin row = 0"
    by (rule exI)
  have "\<not> a"
    using n i k by (simp add: flag_def)
  then show ?thesis
    using ex by (rule conjI)
qed

lemma sample_registration:
  "create_user sample_hash sample_db
     (Resolved (Some (empty_body\<lparr>b_name := Some ''Dana'', b_email := Some ''dana@example.com'',
                                 b_password := Some ''pw''\<rparr>)))
   = ((201, UserCreated 4 False),
      sample_db\<lparr>users := sample_users @
                  [\<lparr>u_id = 4, u_name = ''Dana'', u_email = ''dana@example.com'',
                    u_password = ''$2a$10$pw'', u_cpf = Some [], u_is_admin = 0,
                    u_approved = 0\<rparr>],
                users_seq := 4\<rparr>)"
proof -
  have r: "next_rowid 3 (map u_id sample_users) = Some 4"
    by (simp add: next_rowid_def max_rowid_def sample_users_def)
  have j: "js_number 4 = 4"
    by (rule js_number_exact) simp
  have f: "find (\<lambda>u. u_email u = ''dana@example.com'') sample_users = None"
    "\<not> list_ex (\<lambda>u. u_email u = ''dana@example.com'') sample_users"
    by (simp_all add: sample_users_def)
  show ?thesis
    by (simp add: create_user_defs insert_user_def hashPassword_def sample_hash_def
        sample_db_def empty_body_def flag_def f r j)
qed

text \<open>
  C6, as the specification states it, fails for a pair of requests that overlap. Dana's
  registration and a second one with her email both look the email up before either
  inserts: both lookups find no row, Dana's insert is answered 201, and the second
  insert, refused by the \<^verbatim>\<open>UNIQUE\<close> column, is answered 500 and not 409.
\<close>

theorem create_user_overlapping_duplicate:
  "create_user_lookup sample_db
     (Resolved (Some (empty_body\<lparr>b_name := Some ''Dan'', b_email := Some ''dana@example.com'',
                                 b_password := Some ''other''\<rparr>)))
   = Inserting ''Dan'' ''dana@example.com'' ''other'' None 0 0
   \<and> fst (create_user sample_hash sample_db
     (Resolved (Some (empty_body\<lparr>b_name := Some ''Dana'', b_email := Some ''dana@example.com'',
                                 b_password := Some ''pw''\<rparr>)))) = (201, UserCreated 4 False)
   \<and> fst (create_user_insert sample_hash
       (snd (create_user sample_hash sample_db
          (Resolved (Some (empty_body\<lparr>b_name := Some ''Dana'',
                                      b_email := Some ''dana@example.com'',
                                      b_password := Some ''pw''\<rparr>)))))
       ''Dan'' ''dana@example.com'' ''other'' None 0 0) = (500, Error InternalError)"
proof -
  have 1: "create_user_lookup sample_db
     (Resolved (Some (empty_body\<lparr>b_name := Some ''Dan'', b_email := Some ''dana@example.com'',
                                 b_password := Some ''other''\<rparr>)))
   = Inserting ''Dan'' ''dana@example.com'' ''other'' None 0 0"
    by (simp add: create_user_lookup_def sample_db_def sample_users_def empty_body_def flag_def)
  have 2: "fst (create_user sample_hash sample_db
     (Resolved (Some (empty_body\<lparr>b_name := Some ''Dana'', b_email := Some ''dana@example.com'',
                                 b_password := Some ''pw''\<rparr>)))) = (201, UserCreated 4 False)"
    by (simp add: sample_registration)
  have 3: "fst (create_user_insert sample_hash
       (snd (create_user sample_hash sample_db
          (Resolved (Some (empty_body\<lparr>b_name := Some ''Dana'',
                                      b_email := Some ''dana@example.com'',
                                      b_password := Some ''pw''\<rparr>)))))
       ''Dan'' ''dana@example.com'' ''other'' None 0 0) = (500, Error InternalError)"
    by (simp only: sample_registration snd_conv)
      (simp add: create_user_insert_def insert_user_def hashPassword_def sample_hash_def
        sample_db_def)
  from 1 2 3 show ?thesis
    by (intro conjI)
qed

text \<open>
  C6. (1) When a creation request has been answered 201, a request with name and
  password present and the same email inserts no row: handled after the first, it is
  answered 409 and leaves the database as it is, and so is any well-formed request whose
  email a row already has, on a store that answers the lookup; when instead its lookup
  ran before the first request's insert, so that the two overlap, the lookup finds no
  row and its insert, run after the first's, is answered 500 and leaves the database as
  it is. (2) A request without a body, or whose name, email or password is absent or
  empty, is answered 400 and inserts nothing; indeed no request answered otherwise than
  201 changes the database. (3) A request with neither an approved nor an is_admin
  property whose insert is answered 201 has appended exactly one row, with approved = 0
  and is_admin = 0, the digest as password and an id no row had, and the answer carries
  that id as a JavaScript number. A request is so answered when it is well formed, its
  email is new, the password hashes, and the store answers, has room and has a rowid
  left.
\<close>

theorem create_user_duplicate_validation_defaults:
  "(\<forall>h h' d d1 b1 b2 i a.
      create_user h d (Resolved (Some b1)) = ((201, UserCreated i a), d1) \<and>
      present (b_name b2) \<and> present (b_password b2) \<and> b_email b2 = b_email b1 \<longrightarrow>
      create_user h' d1 (Resolved (Some b2)) = ((409, Error EmailTaken), d1) \<and>
      create_user_lookup d (Resolved (Some b2)) =
        Inserting (or_empty (b_name b2)) (or_empty (b_email b2)) (or_empty (b_password b2))
          (b_cpf b2) (flag (b_approved b2)) (flag (b_is_admin b2)) \<and>
      create_user_insert h' d1 (or_empty (b_name b2)) (or_empty (b_email b2))
          (or_empty (b_password b2)) (b_cpf b2) (flag (b_approved b2)) (flag (b_is_admin b2))
        = ((500, Error InternalError), d1))
   \<and> (\<forall>h d body row.
      present (b_name body) \<and> present (b_email body) \<and> present (b_password body) \<and>
      \<not> db_error d \<and> find (\<lambda>u. u_email u = or_empty (b_email body)) (users d) = Some row \<longrightarrow>
      create_user h d (Resolved (Some body)) = ((409, Error EmailTaken), d))
   \<and> (\<forall>h d body.
      \<not> present (b_name body) \<or> \<not> present (b_email body) \<or> \<not> present (b_password body) \<longrightarrow>
      create_user h d (Resolved (Some body)) = ((400, Error NameEmailPasswordRequired), d))
   \<and> (\<forall>h d. create_user h d (Resolved None) = ((400, Error NameEmailPasswordRequired), d))
   \<and> (\<forall>h d p r d'. create_user h d p = (r, d') \<and> fst r \<noteq> 201 \<longrightarrow> d' = d)
   \<and> (\<forall>h d nm e pw c ap ad r d'.
      create_user_insert h d nm e pw c ap ad = (r, d') \<and> fst r \<noteq> 201 \<longrightarrow> d' = d)
   \<and> (\<forall>h d d2 body nm e pw c ap ad i a d'.
      b_approved body = None \<and> b_is_admin body = None \<and>
      create_user_lookup d (Resolved (Some body)) = Inserting nm e pw c ap ad \<and>
      create_user_insert h d2 nm e pw c ap ad = ((201, UserCreated i a), d') \<longrightarrow>
      \<not> a \<and>
      (\<exists>row. d' = d2\<lparr>users := users d2 @ [row], users_seq := u_id row\<rparr> \<and>
         u_id row \<notin> set (map u_id (users d2)) \<and> i = js_number (u_id row) \<and>
         u_name row = or_empty (b_name body) \<and> u_email row = or_empty (b_email body) \<and>
         h (or_empty (b_password body)) 10 = Some (u_password row) \<and>
         u_cpf row = Some (or_empty (b_cpf body)) \<and>
         u_approved row = 0 \<and> u_is_admin row = 0))
   \<and> (\<forall>h d body hash rowid.
      present (b_name body) \<and> present (b_email body) \<and> present (b_password body) \<and>
      \<not> db_error d \<and> \<not> db_full d \<and>
      find (\<lambda>u. u_email u = or_empty (b_email body)) (users d) = None \<and>
      h (or_empty (b_password body)) 10 = Some hash \<and>
      next_rowid (users_seq d) (map u_id (users d)) = Some rowid \<longrightarrow>
      fst (create_user h d (Resolved (Some body))) =
        (201, UserCreated (js_number rowid) (flag (b_approved body) = 1)))"
proof -
  have 1: "\<forall>h h' d d1 b1 b2 i a.
      create_user h d (Resolved (Some b1)) = ((201, UserCreated i a), d1) \<and>
      present (b_name b2) \<and> present (b_password b2) \<and> b_email b2 = b_email b1 \<longrightarrow>
      create_user h' d1 (Resolved (Some b2)) = ((409, Error EmailTaken), d1) \<and>
      create_user_lookup d (Resolved (Some b2)) =
        Inserting (or_empty (b_name b2)) (or_empty (b_email b2)) (or_empty (b_password b2))
          (b_cpf b2) (flag (b_approved b2)) (flag (b_is_admin b2)) \<and>
      create_user_insert h' d1 (or_empty (b_name b2)) (or_empty (b_email b2))
          (or_empty (b_password b2)) (b_cpf b2) (flag (b_approved b2)) (flag (b_is_admin b2))
        = ((500, Error InternalError), d1)"
  proof (intro allI impI)
    fix h h' :: hasher and d d1 :: db and b1 b2 :: body and i :: int and a :: bool
    assume "create_user h d (Resolved (Some b1)) = ((201, UserCreated i a), d1) \<and>
      present (b_name b2) \<and> present (b_password b2) \<and> b_email b2 = b_email b1"
    then have c: "create_user h d (Resolved (Some b1)) = ((201, UserCreated i a), d1)"
      and v: "present (b_name b2)" "present (b_password b2)" and e: "b_email b2 = b_email b1"
      by simp_all
    from create_user_again [OF c v e] create_user_overlap [OF c v e]
    show "create_user h' d1 (Resolved (Some b2)) = ((409, Error EmailTaken), d1) \<and>
      create_user_lookup d (Resolved (Some b2)) =
        Inserting (or_empty (b_name b2)) (or_empty (b_email b2)) (or_empty (b_password b2))
          (b_cpf b2) (flag (b_approved b2)) (flag (b_is_admin b2)) \<and>
      create_user_insert h' d1 (or_empty (b_name b2)) (or_empty (b_email b2))
          (or_empty (b_password b2)) (b_cpf b2) (flag (b_approved b2)) (flag (b_is_admin b2))
        = ((500, Error InternalError), d1)"
      by (intro conjI)
  qed
  have 2: "\<forall>h d body row.
      present (b_name body) \<and> present (b_email body) \<and> present (b_password body) \<and>
      \<not> db_error d \<and> find (\<lambda>u. u_email u = or_empty (b_email body)) (users d) = Some row \<longrightarrow>
      create_user h d (Resolved (Some body)) = ((409, Error EmailTaken), d)"
    using create_user_taken by blast
  have 3: "\<forall>h d body.
      \<not> present (b_name body) \<or> \<not> present (b_email body) \<or> \<not> present (b_password body) \<longrightarrow>
      create_user h d (Resolved (Some body)) = ((400, Error NameEmailPasswordRequired), d)"
    using create_user_invalid by blast
  have 4: "\<forall>h d. create_user h d (Resolved None) = ((400, Error NameEmailPasswordRequired), d)"
    by (simp add: create_user_defs)
  have 5: "\<forall>h d p r d'. create_user h d p = (r, d') \<and> fst r \<noteq> 201 \<longrightarrow> d' = d"
    using create_user_unchanged by blast
  have 6: "\<forall>h d nm e pw c ap ad r d'.
      create_user_insert h d nm e pw c ap ad = (r, d') \<and> fst r \<noteq> 201 \<longrightarrow> d' = d"
    using create_user_insert_unchanged by blast
  have 7: "\<forall>h d d2 body nm e pw c ap ad i a d'.
      b_approved body = None \<and> b_is_admin body = None \<and>
      create_user_lookup d (Resolved (Some body)) = Inserting nm e pw c ap ad \<and>
      create_user_insert h d2 nm e pw c ap ad = ((201, UserCreated i a), d') \<longrightarrow>
      \<not> a \<and>
      (\<exists>row. d' = d2\<lparr>users := users d2 @ [row], users_seq := u_id row\<rparr> \<and>
         u_id row \<notin> set (map u_id (users d2)) \<and> i = js_number (u_id row) \<and>
         u_name row = or_empty (b_name body) \<and> u_email row = or_empty (b_email body) \<and>
         h (or_empty (b_password body)) 10 = Some (u_password row) \<and>
         u_cpf row = Some (or_empty (b_cpf body)) \<and>
         u_approved row = 0 \<and> u_is_admin row = 0)"
    using create_user_defaults by blast
  have 8: "\<forall>h d body hash rowid.
      present (b_name body) \<and> present (b_email body) \<and> present (b_password body) \<and>
      \<not> db_error d \<and> \<not> db_full d \<and>
      find (\<lambda>u. u_email u = or_empty (b_email body)) (users d) = None \<and>
      h (or_empty (b_password body)) 10 = Some hash \<and>
      next_rowid (users_seq d) (map u_id (users d)) = Some rowid \<longrightarrow>
      fst (create_user h d (Resolved (Some body))) =
        (201, UserCreated (js_number rowid) (flag (b_approved body) = 1))"
    by (simp add: create_user_new insert_user_succeeds)
  from 1 2 3 4 5 6 7 8 show ?thesis
    by (intro conjI)
qed

text \<open>
  On the sample database: Dana's registration is answered 201 with the id 4 and a row
  awaiting approval; a second registration with her email is answered 409 when it is
  handled after hers, and 500 when only its insert is; one without a password is answered
  400; and on a full store her registration is answered 500; all four without a change.
\<close>

theorem create_user_duplicate_validation_defaults_witness:
  "fst (create_user sample_hash sample_db
      (Resolved (Some (empty_body\<lparr>b_name := Some ''Dana'', b_email := Some ''dana@example.com'',
                                  b_password := Some ''pw''\<rparr>)))) = (201, UserCreated 4 False)
   \<and> map u_approved (users (snd (create_user sample_hash sample_db
      (Resolved (Some (empty_body\<lparr>b_name := Some ''Dana'', b_email := Some ''dana@example.com'',
                                  b_password := Some ''pw''\<rparr>)))))) = [1, 0, 1, 0]
   \<and> create_user sample_hash (snd (create_user sample_hash sample_db
      (Resolved (Some (empty_body\<lparr>b_name := Some ''Dana'', b_email := Some ''dana@example.com'',
                                  b_password := Some ''pw''\<rparr>)))))
      (Resolved (Some (empty_body\<lparr>b_name := Some ''Dan'', b_email := Some ''dana@example.com'',
                                  b_password := Some ''other''\<rparr>)))
      = ((409, Error EmailTaken), snd (create_user sample_hash sample_db
      (Resolved (Some (empty_body\<lparr>b_name := Some ''Dana'', b_email := Some ''dana@example.com'',
                                  b_password := Some ''pw''\<rparr>)))))
   \<and> create_user_insert sample_hash (snd (create_user sample_hash sample_db
      (Resolved (Some (empty_body\<lparr>b_name := Some ''Dana'', b_email := Some ''dana@example.com'',
                                  b_password := Some ''pw''\<rparr>)))))
      ''Dan'' ''dana@example.com'' ''other'' None 0 0
      = ((500, Error InternalError), snd (create_user sample_hash sample_db
      (Resolved (Some (empty_body\<lparr>b_name := Some ''Dana'', b_email := Some ''dana@example.com'',
                                  b_password := Some ''pw''\<rparr>)))))
   \<and> create_user sample_hash sample_db
      (Resolved (Some (empty_body\<lparr>b_name := Some ''Eve'', b_email := Some ''eve@example.com''\<rparr>)))
      = ((400, Error NameEmailPasswordRequired), sample_db)
   \<and> create_user sample_hash (sample_db\<lparr>db_full := True\<rparr>)
      (Resolved (Some (empty_body\<lparr>b_name := Some ''Dana'', b_email := Some ''dana@example.com'',
                                  b_password := Some ''pw''\<rparr>)))
      = ((500, Error InternalError), sample_db\<lparr>db_full := True\<rparr>)"
proof -
  let ?dana = "empty_body\<lparr>b_name := Some ''Dana'', b_email := Some ''dana@example.com'',
                          b_password := Some ''pw''\<rparr>"
  let ?dan = "empty_body\<lparr>b_name := Some ''Dan'', b_email := Some ''dana@example.com'',
                         b_password := Some ''other''\<rparr>"
  let ?eve = "empty_body\<lparr>b_name := Some ''Eve'', b_email := Some ''eve@example.com''\<rparr>"
  let ?full = "sample_db\<lparr>db_full := True\<rparr>"
  note t = create_user_duplicate_validation_defaults
  have db: "\<not> db_error sample_db" "\<not> db_full sample_db" "users sample_db = sample_users"
    "users_seq sample_db = 3"
    by (simp_all add: sample_db_def)
  have f: "find (\<lambda>u. u_email u = ''dana@example.com'') sample_users = None"
    by (simp add: sample_users_def)
  have r: "next_rowid 3 (map u_id sample_users) = Some 4"
    by (simp add: next_rowid_def max_rowid_def sample_users_def)
  have j: "js_number 4 = 4"
    by (rule js_number_exact) simp
  have pre: "present (b_name ?dana) \<and> present (b_email ?dana) \<and> present (b_password ?dana) \<and>
      \<not> db_error sample_db \<and> \<not> db_full sample_db \<and>
      find (\<lambda>u. u_email u = or_empty (b_email ?dana)) (users sample_db) = None \<and>
      sample_hash (or_empty (b_password ?dana)) 10 = Some ''$2a$10$pw'' \<and>
      next_rowid (users_seq sample_db) (map u_id (users sample_db)) = Some 4"
    by (simp add: db f r sample_hash_def)
  have n: "b_approved ?dana = None" "b_is_admin ?dana = None"
    by (simp_all add: empty_body_def)
  have 1: "fst (create_user sample_hash sample_db (Resolved (Some ?dana))) =
             (201, UserCreated 4 False)"
    using t [THEN conjunct2, THEN conjunct2, THEN conjunct2, THEN conjunct2, THEN conjunct2,
        THEN conjunct2, THEN conjunct2, rule_format,
        where h = sample_hash and d = sample_db and body = ?dana and
          hash = "''$2a$10$pw''" and rowid = 4] pre
    by (simp add: j n flag_def)
  obtain d1 where c: "create_user sample_hash sample_db (Resolved (Some ?dana)) =
      ((201, UserCreated 4 False), d1)"
    using 1 by (cases "create_user sample_hash sample_db (Resolved (Some ?dana))") simp
  have lk: "create_user_lookup sample_db (Resolved (Some ?dana)) =
      Inserting ''Dana'' ''dana@example.com'' ''pw'' None 0 0"
    by (simp add: create_user_lookup_def db f empty_body_def flag_def)
  have ci: "create_user_insert sample_hash sample_db ''Dana'' ''dana@example.com'' ''pw'' None 0 0
      = ((201, UserCreated 4 False), d1)"
    using c by (simp add: create_user_def lk)
  from t [THEN conjunct2, THEN conjunct2, THEN conjunct2, THEN conjunct2, THEN conjunct2,
      THEN conjunct2, THEN conjunct1, rule_format,
      where h = sample_hash and d = sample_db and ?d2.0 = sample_db and body = ?dana and
        nm = "''Dana''" and e = "''dana@example.com''" and pw = "''pw''" and c = None and
        ap = 0 and ad = 0 and i = 4 and a = False and d' = d1] n lk ci
  obtain row where row: "d1 = sample_db\<lparr>users := users sample_db @ [row], users_seq := u_id row\<rparr>"
    "u_approved row = 0"
    by blast
  have 2: "map u_approved (users (snd (create_user sample_hash sample_db (Resolved (Some ?dana)))))
             = [1, 0, 1, 0]"
    by (simp add: c row db sample_users_def)
  have d2: "present (b_name ?dan) \<and> present (b_password ?dan) \<and> b_email ?dan = b_email ?dana"
    by simp
  note t1 = t [THEN conjunct1, rule_format, where h = sample_hash and d = sample_db and
        ?b1.0 = ?dana and i = 4 and a = False and ?b2.0 = ?dan and h' = sample_hash and
        ?d1.0 = d1]
  have dn: "or_empty (b_name ?dan) = ''Dan''" "or_empty (b_email ?dan) = ''dana@example.com''"
    "or_empty (b_password ?dan) = ''other''" "b_cpf ?dan = None"
    "flag (b_approved empty_body) = 0" "flag (b_is_admin empty_body) = 0"
    by (simp_all add: empty_body_def flag_def)
  have 3: "create_user sample_hash (snd (create_user sample_hash sample_db (Resolved (Some ?dana))))
             (Resolved (Some ?dan))
           = ((409, Error EmailTaken),
              snd (create_user sample_hash sample_db (Resolved (Some ?dana))))"
    using t1 c d2 by simp
  have 4: "create_user_insert sample_hash
             (snd (create_user sample_hash sample_db (Resolved (Some ?dana))))
             ''Dan'' ''dana@example.com'' ''other'' None 0 0
           = ((500, Error InternalError),
              snd (create_user sample_hash sample_db (Resolved (Some ?dana))))"
    using t1 c d2 by (simp add: dn)
  have e: "\<not> present (b_name ?eve) \<or> \<not> present (b_email ?eve) \<or> \<not> present (b_password ?eve)"
    by (simp add: empty_body_def)
  have 5: "create_user sample_hash sample_db (Resolved (Some ?eve))
             = ((400, Error NameEmailPasswordRequired), sample_db)"
    using t [THEN conjunct2, THEN conjunct2, THEN conjunct1, rule_format,
        where h = sample_hash and d = sample_db and body = ?eve] e by blast
  have a: "fst (create_user sample_hash ?full (Resolved (Some ?dana))) =
             (500, Error InternalError)"
    by (simp add: create_user_defs insert_user_def hashPassword_def sample_hash_def db f
        sample_db_def)
  obtain d5 where c5: "create_user sample_hash ?full (Resolved (Some ?dana)) =
      ((500, Error InternalError), d5)"
    using a by (cases "create_user sample_hash ?full (Resolved (Some ?dana))") simp
  have "d5 = ?full"
    using t [THEN conjunct2, THEN conjunct2, THEN conjunct2, THEN conjunct2, THEN conjunct1,
        rule_format, where h = sample_hash and d = ?full and
          p = "Resolved (Some ?dana)" and r = "(500, Error InternalError)" and d' = d5] c5
    by simp
  with c5 have 6: "create_user sample_hash ?full (Resolved (Some ?dana))
             = ((500, Error InternalError), ?full)"
    by simp
  from 1 2 3 4 5 6 show ?thesis
    by (intro conjI)
qed

section \<open>Properties of the schedule handlers\<close>

lemma update_schedule_eq:
  assumes "idp \<noteq> []" and "\<not> db_error d" and "b_online body = Some v"
  shows "update_schedule r d idp (Resolved (Some body)) =
           ((if \<exists>s\<in>set (schedules d). r (JStr idp) = Some (s_id s)
             then (200, ScheduleUpdated idp (if truthy v then 1 else 0))
             else (404, Error ScheduleNotFound)),
            d\<lparr>schedules :=
                map (\<lambda>s. if r (JStr idp) = Some (s_id s)
                         then s\<lparr>s_online := (if truthy v then 1 else 0)\<rparr> else s)
                  (schedules d)\<rparr>)"
  using assms by (auto simp: update_schedule_def Let_def filter_empty_conv)

lemma update_schedule_reads_online_only:
  "b_online body' = b_online body \<Longrightarrow>
     update_schedule r d idp (Resolved (Some body')) = update_schedule r d idp (Resolved (Some body))"
  by (simp add: update_schedule_def)

text \<open>
  C7. For an update request whose body has the online property, answered by a store that
  does not err: the answer is 200 with the normalised value when a row has the id, and
  404 when none has; in the first case every row with that id has its online column set
  to 1 for a truthy value and 0 for a falsy one and every other column as before, all
  other rows and everything else in the database are as before; in the second case the
  database is as before. Two bodies with the same online property are answered alike
  and leave the same database, whatever else they carry. A body without the online
  property is answered 400 and changes nothing.
\<close>

theorem update_schedule_only_online:
  assumes "idp \<noteq> []" and "\<not> db_error d" and "b_online body = Some v"
  shows "fst (update_schedule r d idp (Resolved (Some body))) =
           (if \<exists>s\<in>set (schedules d). r (JStr idp) = Some (s_id s)
            then (200, ScheduleUpdated idp (if truthy v then 1 else 0))
            else (404, Error ScheduleNotFound))
       \<and> length (schedules (snd (update_schedule r d idp (Resolved (Some body)))))
           = length (schedules d)
       \<and> (\<forall>i<length (schedules d).
            schedules (snd (update_schedule r d idp (Resolved (Some body)))) ! i =
              (if r (JStr idp) = Some (s_id (schedules d ! i))
               then (schedules d ! i)\<lparr>s_online := (if truthy v then 1 else 0)\<rparr>
               else schedules d ! i))
       \<and> (snd (update_schedule r d idp (Resolved (Some body))))\<lparr>schedules := schedules d\<rparr> = d
       \<and> (\<not> (\<exists>s\<in>set (schedules d). r (JStr idp) = Some (s_id s)) \<longrightarrow>
            snd (update_schedule r d idp (Resolved (Some body))) = d)
       \<and> (\<forall>body'. b_online body' = b_online body \<longrightarrow>
            update_schedule r d idp (Resolved (Some body'))
              = update_schedule r d idp (Resolved (Some body)))
       \<and> (\<forall>d0 body0. b_online body0 = None \<longrightarrow>
            update_schedule r d0 idp (Resolved (Some body0)) = ((400, Error OnlineRequired), d0))"
proof -
  let ?f = "\<lambda>s. if r (JStr idp) = Some (s_id s)
                 then s\<lparr>s_online := (if truthy v then 1 else 0)\<rparr> else s"
  note eq = update_schedule_eq [OF assms, of r]
  have 1: "fst (update_schedule r d idp (Resolved (Some body))) =
           (if \<exists>s\<in>set (schedules d). r (JStr idp) = Some (s_id s)
            then (200, ScheduleUpdated idp (if truthy v then 1 else 0))
            else (404, Error ScheduleNotFound))"
    by (simp add: eq)
  have 2: "length (schedules (snd (update_schedule r d idp (Resolved (Some body)))))
           = length (schedules d)"
    by (simp add: eq)
  have 3: "\<forall>i<length (schedules d).
            schedules (snd (update_schedule r d idp (Resolved (Some body)))) ! i =
              (if r (JStr idp) = Some (s_id (schedules d ! i))
               then (schedules d ! i)\<lparr>s_online := (if truthy v then 1 else 0)\<rparr>
               else schedules d ! i)"
    by (simp add: eq)
  have 4: "(snd (update_schedule r d idp (Resolved (Some body))))\<lparr>schedules := schedules d\<rparr> = d"
    by (simp add: eq)
  have 5: "\<not> (\<exists>s\<in>set (schedules d). r (JStr idp) = Some (s_id s)) \<longrightarrow>
            snd (update_schedule r d idp (Resolved (Some body))) = d"
  proof
    assume "\<not> (\<exists>s\<in>set (schedules d). r (JStr idp) = Some (s_id s))"
    then have "map ?f (schedules d) = map (\<lambda>s. s) (schedules d)"
      by (intro map_cong) auto
    then show "snd (update_schedule r d idp (Resolved (Some body))) = d"
      by (simp add: eq)
  qed
  have 6: "\<forall>body'. b_online body' = b_online body \<longrightarrow>
            update_schedule r d idp (Resolved (Some body'))
              = update_schedule r d idp (Resolved (Some body))"
    by (blast intro: update_schedule_reads_online_only)
  have 7: "\<forall>d0 body0. b_online body0 = None \<longrightarrow>
            update_schedule r d0 idp (Resolved (Some body0)) = ((400, Error OnlineRequired), d0)"
    using assms(1) by (simp add: update_schedule_def)
  from 1 2 3 4 5 6 7 show ?thesis
    by (intro conjI)
qed

lemma db_schedules_frame:
  assumes "x\<lparr>schedules := schedules d\<rparr> = d" and "schedules x = ys"
  shows "x = d\<lparr>schedules := ys\<rparr>"
proof -
  have "d\<lparr>schedules := ys\<rparr> = (x\<lparr>schedules := schedules d\<rparr>)\<lparr>schedules := ys\<rparr>"
    by (simp only: assms(1))
  also have "\<dots> = x\<lparr>schedules := schedules x\<rparr>"
    by (simp add: assms(2))
  finally show ?thesis
    by simp
qed

lemma sample_rowid_digit_texts:
  "sample_rowid (JStr ''4'') = Some 4" "sample_rowid (JStr ''6'') = Some 6"
  "sample_rowid (JStr ''7'') = Some 7"
  by (simp_all add: all_digits_def is_digit_def parseInt10_def digit_val_def)

theorem update_schedule_only_online_witness:
  "update_schedule sample_rowid sample_db ''4''
      (Resolved (Some (empty_body\<lparr>b_online := Some (JBool False), b_client := Some (JStr ''Eva''),
                                  b_time := Some (JStr ''23:00'')\<rparr>)))
     = ((200, ScheduleUpdated ''4'' 0),
        sample_db\<lparr>schedules := [sample_schedules ! 0, (sample_schedules ! Suc 0)\<lparr>s_online := 0\<rparr>]\<rparr>)
   \<and> update_schedule sample_rowid sample_db ''7''
      (Resolved (Some (empty_body\<lparr>b_online := Some (JBool False)\<rparr>)))
     = ((404, Error ScheduleNotFound), sample_db)
   \<and> update_schedule sample_rowid sample_db ''4'' (Resolved (Some (empty_body\<lparr>b_notes := Some (JStr ''x'')\<rparr>)))
     = ((400, Error OnlineRequired), sample_db)"
proof -
  let ?b = "empty_body\<lparr>b_online := Some (JBool False), b_client := Some (JStr ''Eva''),
                       b_time := Some (JStr ''23:00'')\<rparr>"
  let ?c = "empty_body\<lparr>b_online := Some (JBool False)\<rparr>"
  let ?n = "empty_body\<lparr>b_notes := Some (JStr ''x'')\<rparr>"
  have db: "\<not> db_error sample_db" "schedules sample_db = sample_schedules"
    by (simp_all add: sample_db_def)
  have len: "length sample_schedules = 2"
    by (simp add: sample_schedules_def)
  have lt: "0 < (2::nat)" "Suc 0 < 2"
    by simp_all
  have hit4: "(\<exists>s\<in>set (schedules sample_db). sample_rowid (JStr ''4'') = Some (s_id s)) = True"
    and hit7: "(\<exists>s\<in>set (schedules sample_db). sample_rowid (JStr ''7'') = Some (s_id s)) = False"
    by (simp_all add: db sample_schedules_def sample_rowid_digit_texts del: sample_rowid.simps)
  have k: "(sample_rowid (JStr ''4'') = Some (s_id (sample_schedules ! 0))) = False"
    "(sample_rowid (JStr ''4'') = Some (s_id (sample_schedules ! Suc 0))) = True"
    by (simp_all add: sample_schedules_def sample_rowid_digit_texts del: sample_rowid.simps)
  have o: "b_online ?b = Some (JBool False)" "b_online ?c = Some (JBool False)" "b_online ?n = None"
    by (simp_all add: empty_body_def)
  have i: "''4'' \<noteq> []" "''7'' \<noteq> []"
    by simp_all
  note t4 = update_schedule_only_online [OF i(1) db(1) o(1), of sample_rowid]
  note t7 = update_schedule_only_online [OF i(2) db(1) o(2), of sample_rowid]
  have r4: "fst (update_schedule sample_rowid sample_db ''4'' (Resolved (Some ?b)))
              = (200, ScheduleUpdated ''4'' 0)"
    using t4 [THEN conjunct1] by (simp only: hit4 if_True truthy.simps if_False)
  have l4: "length (schedules (snd (update_schedule sample_rowid sample_db ''4'' (Resolved (Some ?b))))) = 2"
    using t4 [THEN conjunct2, THEN conjunct1] by (simp only: db(2) len)
  note n4 = t4 [THEN conjunct2, THEN conjunct2, THEN conjunct1, rule_format, unfolded db(2) len]
  have n40: "schedules (snd (update_schedule sample_rowid sample_db ''4'' (Resolved (Some ?b)))) ! 0
               = sample_schedules ! 0"
    using n4 [OF lt(1)] by (simp only: k if_False)
  have n41: "schedules (snd (update_schedule sample_rowid sample_db ''4'' (Resolved (Some ?b)))) ! Suc 0
               = (sample_schedules ! Suc 0)\<lparr>s_online := 0\<rparr>"
    using n4 [OF lt(2)] by (simp only: k if_True if_False truthy.simps)
  have s4: "schedules (snd (update_schedule sample_rowid sample_db ''4'' (Resolved (Some ?b))))
              = [sample_schedules ! 0, (sample_schedules ! Suc 0)\<lparr>s_online := 0\<rparr>]"
    by (rule nth_equalityI) (auto simp: l4 n40 n41 less_Suc_eq numeral_2_eq_2)
  have f4: "(snd (update_schedule sample_rowid sample_db ''4'' (Resolved (Some ?b))))
              \<lparr>schedules := schedules sample_db\<rparr> = sample_db"
    using t4 [THEN conjunct2, THEN conjunct2, THEN conjunct2, THEN conjunct1] .
  have d4: "snd (update_schedule sample_rowid sample_db ''4'' (Resolved (Some ?b)))
              = sample_db\<lparr>schedules := [sample_schedules ! 0, (sample_schedules ! Suc 0)\<lparr>s_online := 0\<rparr>]\<rparr>"
    using f4 s4 by (rule db_schedules_frame)
  have 1: "update_schedule sample_rowid sample_db ''4'' (Resolved (Some ?b))
     = ((200, ScheduleUpdated ''4'' 0),
        sample_db\<lparr>schedules := [sample_schedules ! 0, (sample_schedules ! Suc 0)\<lparr>s_online := 0\<rparr>]\<rparr>)"
    using r4 d4 by (simp only: prod_eq_iff fst_conv snd_conv simp_thms)
  have r7: "fst (update_schedule sample_rowid sample_db ''7'' (Resolved (Some ?c)))
              = (404, Error ScheduleNotFound)"
    using t7 [THEN conjunct1] by (simp only: hit7 if_False)
  have d7: "snd (update_schedule sample_rowid sample_db ''7'' (Resolved (Some ?c))) = sample_db"
    using t7 [THEN conjunct2, THEN conjunct2, THEN conjunct2, THEN conjunct2, THEN conjunct1]
    by (simp only: hit7 simp_thms)
  have 2: "update_schedule sample_rowid sample_db ''7'' (Resolved (Some ?c))
     = ((404, Error ScheduleNotFound), sample_db)"
    using r7 d7 by (simp only: prod_eq_iff fst_conv snd_conv simp_thms)
  have 3: "update_schedule sample_rowid sample_db ''4'' (Resolved (Some ?n))
     = ((400, Error OnlineRequired), sample_db)"
    using t4 [THEN conjunct2, THEN conjunct2, THEN conjunct2, THEN conjunct2, THEN conjunct2,
        THEN conjunct2, rule_format, where ?d0.0 = sample_db and ?body0.0 = ?n] o(3)
    by blast
  from 1 2 3 show ?thesis
    by (intro conjI)
qed

lemma validateHour_is_text: "validateHour tv \<Longrightarrow> \<exists>s. tv = JStr s \<and> s \<noteq> []"
  by (cases tv) (auto dest: validateHour_length)

lemma find_snoc_fresh: "\<forall>y\<in>set xs. \<not> P y \<Longrightarrow> P x \<Longrightarrow> find P (xs @ [x]) = Some x"
  by (rule find_snoc_new) (simp_all add: find_None_iff)

lemma or_empty_text_falsy: "\<not> truthy_prop v \<Longrightarrow> or_empty_text v = JStr []"
  by (cases v) simp_all

lemma create_schedule_refused:
  assumes "b_lawyer body = Some lawyer" "truthy lawyer" "b_client body = Some client"
    "truthy client" "b_date body = Some date" "truthy date"
    "b_time body = Some tv" "validateHour tv"
    and "Unbindable \<in> {bind_text aff lawyer, bind_text aff client, bind_text aff date,
           bind_text aff (or_empty_text (b_process_number body)),
           bind_text aff (or_empty_text (b_notes body))}"
  shows "create_schedule aff d (Resolved (Some body)) = ((500, Error InternalError), d)"
proof -
  have "insert_schedule d (bind_text aff lawyer) (bind_text aff client)
          (bind_text aff (or_empty_text (b_process_number body)))
          (if truthy_prop (b_online body) then 1 else 0)
          (bind_text aff date) (bind_text aff tv)
          (bind_text aff (or_empty_text (b_notes body))) = None"
    using assms(9) by (auto simp: insert_schedule_def)
  moreover have "truthy tv"
    using validateHour_is_text [OF assms(8)] by auto
  ultimately show ?thesis
    using assms(1-8) by (simp add: create_schedule_def)
qed

lemma create_schedule_eq:
  assumes "b_lawyer body = Some lawyer" "truthy lawyer" "b_client body = Some client"
    "truthy client" "b_date body = Some date" "truthy date"
    "b_time body = Some (JStr time)" "validateHour (JStr time)"
    and "\<not> db_error d" "\<not> db_full d"
    and "next_rowid (schedules_seq d) (map s_id (schedules d)) = Some i"
    and "Unbindable \<notin> {bind_text aff lawyer, bind_text aff client, bind_text aff date,
           bind_text aff (or_empty_text (b_process_number body)),
           bind_text aff (or_empty_text (b_notes body))}"
  shows "create_schedule aff d (Resolved (Some body)) =
     ((201, ScheduleCreated (js_number i)),
      d\<lparr>schedules := schedules d @
             [\<lparr>s_id = i, s_lawyer = column (bind_text aff lawyer),
               s_client = column (bind_text aff client),
               s_process_number = column (bind_text aff (or_empty_text (b_process_number body))),
               s_online = (if truthy_prop (b_online body) then 1 else 0),
               s_date = column (bind_text aff date), s_time = Some time,
               s_notes = column (bind_text aff (or_empty_text (b_notes body)))\<rparr>],
         schedules_seq := i\<rparr>)"
proof -
  have "insert_schedule d (bind_text aff lawyer) (bind_text aff client)
          (bind_text aff (or_empty_text (b_process_number body)))
          (if truthy_prop (b_online body) then 1 else 0)
          (bind_text aff date) (bind_text aff (JStr time))
          (bind_text aff (or_empty_text (b_notes body))) =
        Some (i, d\<lparr>schedules := schedules d @
             [\<lparr>s_id = i, s_lawyer = column (bind_text aff lawyer),
               s_client = column (bind_text aff client),
               s_process_number = column (bind_text aff (or_empty_text (b_process_number body))),
               s_online = (if truthy_prop (b_online body) then 1 else 0),
               s_date = column (bind_text aff date), s_time = Some time,
               s_notes = column (bind_text aff (or_empty_text (b_notes body)))\<rparr>],
         schedules_seq := i\<rparr>)"
    using assms(9-12) by (auto simp: insert_schedule_def)
  moreover have "truthy (JStr time)"
    using validateHour_is_text [OF assms(8)] by auto
  ultimately show ?thesis
    using assms(1-8) by (simp add: create_schedule_def)
qed

lemma get_schedule_by_id:
  assumes "all_digits param" "\<not> db_error d"
    and "find (\<lambda>s. r (JStr param) = Some (s_id s)) (schedules d) = Some row"
  shows "get_schedule r d param = (200, ScheduleFound row)"
  using assms by (auto simp: get_schedule_def all_digits_def)

text \<open>
  C9, as the specification states it, fails on a process number that is supplied and
  falsy: the number 0 is neither omitted nor returned, the row fetched by the returned id
  has the empty string in its place.
\<close>

theorem create_then_get_schedule_falsy_process_number:
  "fst (create_schedule sample_affinity sample_db
      (Resolved (Some (empty_body\<lparr>b_lawyer := Some (JStr ''Bob''), b_client := Some (JStr ''Eva''),
         b_process_number := Some (JNum 0), b_date := Some (JStr ''2024-03-01''),
         b_time := Some (JStr ''10:15'')\<rparr>)))) = (201, ScheduleCreated 6)
   \<and> get_schedule sample_rowid (snd (create_schedule sample_affinity sample_db
      (Resolved (Some (empty_body\<lparr>b_lawyer := Some (JStr ''Bob''), b_client := Some (JStr ''Eva''),
         b_process_number := Some (JNum 0), b_date := Some (JStr ''2024-03-01''),
         b_time := Some (JStr ''10:15'')\<rparr>))))) ''6''
     = (200, ScheduleFound \<lparr>s_id = 6, s_lawyer = Some ''Bob'', s_client = Some ''Eva'',
          s_process_number = Some [], s_online = 0, s_date = Some ''2024-03-01'',
          s_time = Some ''10:15'', s_notes = Some []\<rparr>)"
proof -
  let ?b = "empty_body\<lparr>b_lawyer := Some (JStr ''Bob''), b_client := Some (JStr ''Eva''),
         b_process_number := Some (JNum 0), b_date := Some (JStr ''2024-03-01''),
         b_time := Some (JStr ''10:15'')\<rparr>"
  let ?row = "\<lparr>s_id = 6, s_lawyer = Some ''Bob'', s_client = Some ''Eva'',
          s_process_number = Some [], s_online = 0, s_date = Some ''2024-03-01'',
          s_time = Some ''10:15'', s_notes = Some []\<rparr>"
  have v: "validateHour (JStr ''10:15'')"
    by (simp add: is_digit_def parseInt10_def digit_val_def)
  have db: "\<not> db_error sample_db" "\<not> db_full sample_db"
    "schedules sample_db = sample_schedules" "schedules_seq sample_db = 5"
    by (simp_all add: sample_db_def)
  have r: "next_rowid 5 (map s_id sample_schedules) = Some 6"
    by (simp add: next_rowid_def max_rowid_def sample_schedules_def)
  have j: "js_number 6 = 6"
    by (rule js_number_exact) simp
  have c: "create_schedule sample_affinity sample_db (Resolved (Some ?b)) =
      ((201, ScheduleCreated 6),
       sample_db\<lparr>schedules := sample_schedules @ [?row], schedules_seq := 6\<rparr>)"
    using create_schedule_eq [of ?b "JStr ''Bob''" "JStr ''Eva''" "JStr ''2024-03-01''" "''10:15''"
        sample_db 6 sample_affinity] v
    by (simp add: db r j empty_body_def)
  have f: "find (\<lambda>s. sample_rowid (JStr ''6'') = Some (s_id s)) (sample_schedules @ [?row])
             = Some ?row"
    by (simp add: sample_schedules_def sample_rowid_digit_texts del: sample_rowid.simps)
  have g: "get_schedule sample_rowid
             (sample_db\<lparr>schedules := sample_schedules @ [?row], schedules_seq := 6\<rparr>) ''6''
           = (200, ScheduleFound ?row)"
    using f by (intro get_schedule_by_id) (simp_all add: db all_digits_def is_digit_def)
  from c g show ?thesis
    by simp
qed

text \<open>
  C9. For a creation request whose lawyer, client and date are truthy and whose time the
  validator accepts, on a store that answers, has room and has a rowid left: when the
  driver refuses one of the values the answer is 500 and nothing is stored; otherwise the
  answer is 201 with the new rowid as a JavaScript number, the rowid itself when that has
  at most 53 bits, and fetching by the rowid (a numeric path segment that the store
  resolves to it) answers 200 with the row of that id, in which the time is the input;
  lawyer, client and date are what the
  store makes of the inputs, the inputs themselves when they are strings; process_number
  and notes are the empty string when the input is absent or falsy and the input when it
  is a string; and online is 1 for a truthy input and 0 otherwise, an absent one included.
\<close>

theorem create_then_get_schedule:
  assumes "b_lawyer body = Some lawyer" and "truthy lawyer"
    and "b_client body = Some client" and "truthy client"
    and "b_date body = Some date" and "truthy date"
    and "b_time body = Some tv" and "validateHour tv"
    and "\<not> db_error d" and "\<not> db_full d"
    and "next_rowid (schedules_seq d) (map s_id (schedules d)) = Some i"
  shows "(Unbindable \<in> {bind_text aff lawyer, bind_text aff client, bind_text aff date,
            bind_text aff (or_empty_text (b_process_number body)),
            bind_text aff (or_empty_text (b_notes body))} \<longrightarrow>
          create_schedule aff d (Resolved (Some body)) = ((500, Error InternalError), d))
       \<and> (Unbindable \<notin> {bind_text aff lawyer, bind_text aff client, bind_text aff date,
            bind_text aff (or_empty_text (b_process_number body)),
            bind_text aff (or_empty_text (b_notes body))} \<longrightarrow>
          (\<exists>d'. create_schedule aff d (Resolved (Some body))
                  = ((201, ScheduleCreated (js_number i)), d') \<and>
             (\<bar>i\<bar> \<le> 2 ^ 53 \<longrightarrow> js_number i = i) \<and>
             (\<forall>r param. all_digits param \<and> r (JStr param) = Some i \<longrightarrow>
                (\<exists>row. get_schedule r d' param = (200, ScheduleFound row) \<and>
                   s_id row = i \<and>
                   map_option JStr (s_time row) = Some tv \<and>
                   s_lawyer row = column (bind_text aff lawyer) \<and>
                   s_client row = column (bind_text aff client) \<and>
                   s_date row = column (bind_text aff date) \<and>
                   (\<forall>s. lawyer = JStr s \<longrightarrow> s_lawyer row = Some s) \<and>
                   (\<forall>s. client = JStr s \<longrightarrow> s_client row = Some s) \<and>
                   (\<forall>s. date = JStr s \<longrightarrow> s_date row = Some s) \<and>
                   s_process_number row =
                     column (bind_text aff (or_empty_text (b_process_number body))) \<and>
                   s_notes row = column (bind_text aff (or_empty_text (b_notes body))) \<and>
                   (\<not> truthy_prop (b_process_number body) \<longrightarrow> s_process_number row = Some []) \<and>
                   (\<forall>s. b_process_number body = Some (JStr s) \<longrightarrow> s_process_number row = Some s) \<and>
                   (\<not> truthy_prop (b_notes body) \<longrightarrow> s_notes row = Some []) \<and>
                   (\<forall>s. b_notes body = Some (JStr s) \<longrightarrow> s_notes row = Some s) \<and>
                   s_online row = (if truthy_prop (b_online body) then 1 else 0)))))"
proof (intro conjI impI)
  assume "Unbindable \<in> {bind_text aff lawyer, bind_text aff client, bind_text aff date,
            bind_text aff (or_empty_text (b_process_number body)),
            bind_text aff (or_empty_text (b_notes body))}"
  with assms(1-8) show "create_schedule aff d (Resolved (Some body)) = ((500, Error InternalError), d)"
    by (rule create_schedule_refused)
next
  assume u: "Unbindable \<notin> {bind_text aff lawyer, bind_text aff client, bind_text aff date,
            bind_text aff (or_empty_text (b_process_number body)),
            bind_text aff (or_empty_text (b_notes body))}"
  from validateHour_is_text [OF assms(8)] obtain time where tv: "tv = JStr time"
    by blast
  let ?row = "\<lparr>s_id = i, s_lawyer = column (bind_text aff lawyer),
               s_client = column (bind_text aff client),
               s_process_number = column (bind_text aff (or_empty_text (b_process_number body))),
               s_online = (if truthy_prop (b_online body) then 1 else 0),
               s_date = column (bind_text aff date), s_time = Some time,
               s_notes = column (bind_text aff (or_empty_text (b_notes body)))\<rparr>"
  let ?d' = "d\<lparr>schedules := schedules d @ [?row], schedules_seq := i\<rparr>"
  have j: "\<bar>i\<bar> \<le> 2 ^ 53 \<longrightarrow> js_number i = i"
    using js_number_exact [of i] by blast
  have c: "create_schedule aff d (Resolved (Some body))
             = ((201, ScheduleCreated (js_number i)), ?d')"
    using assms(1-6) assms(7) [unfolded tv] assms(8) [unfolded tv] assms(9-11) u
    by (rule create_schedule_eq)
  have fresh: "\<forall>s\<in>set (schedules d). \<not> (Some i = Some (s_id s))"
    using next_rowid_fresh [OF assms(11)] by fastforce
  have g: "\<exists>row. get_schedule r ?d' param = (200, ScheduleFound row) \<and>
                   s_id row = i \<and>
                   map_option JStr (s_time row) = Some tv \<and>
                   s_lawyer row = column (bind_text aff lawyer) \<and>
                   s_client row = column (bind_text aff client) \<and>
                   s_date row = column (bind_text aff date) \<and>
                   (\<forall>s. lawyer = JStr s \<longrightarrow> s_lawyer row = Some s) \<and>
                   (\<forall>s. client = JStr s \<longrightarrow> s_client row = Some s) \<and>
                   (\<forall>s. date = JStr s \<longrightarrow> s_date row = Some s) \<and>
                   s_process_number row =
                     column (bind_text aff (or_empty_text (b_process_number body))) \<and>
                   s_notes row = column (bind_text aff (or_empty_text (b_notes body))) \<and>
                   (\<not> truthy_prop (b_process_number body) \<longrightarrow> s_process_number row = Some []) \<and>
                   (\<forall>s. b_process_number body = Some (JStr s) \<longrightarrow> s_process_number row = Some s) \<and>
                   (\<not> truthy_prop (b_notes body) \<longrightarrow> s_notes row = Some []) \<and>
                   (\<forall>s. b_notes body = Some (JStr s) \<longrightarrow> s_notes row = Some s) \<and>
                   s_online row = (if truthy_prop (b_online body) then 1 else 0)"
    if a: "all_digits param \<and> r (JStr param) = Some i" for r param
  proof -
    have "find (\<lambda>s. r (JStr param) = Some (s_id s)) (schedules ?d') = Some ?row"
      using fresh a by (simp add: find_snoc_fresh)
    with a assms(9) have "get_schedule r ?d' param = (200, ScheduleFound ?row)"
      by (intro get_schedule_by_id) simp_all
    moreover have "\<not> truthy_prop (b_process_number body) \<longrightarrow> s_process_number ?row = Some []"
      "\<not> truthy_prop (b_notes body) \<longrightarrow> s_notes ?row = Some []"
      by (simp_all add: or_empty_text_falsy)
    moreover have "\<forall>s. b_process_number body = Some (JStr s) \<longrightarrow> s_process_number ?row = Some s"
      "\<forall>s. b_notes body = Some (JStr s) \<longrightarrow> s_notes ?row = Some s"
      by simp_all
    moreover have "\<forall>s. lawyer = JStr s \<longrightarrow> s_lawyer ?row = Some s"
      "\<forall>s. client = JStr s \<longrightarrow> s_client ?row = Some s"
      "\<forall>s. date = JStr s \<longrightarrow> s_date ?row = Some s"
      by simp_all
    moreover have "map_option JStr (s_time ?row) = Some tv"
      by (simp add: tv)
    ultimately show ?thesis
      by (intro exI [of _ ?row]) simp
  qed
  from c j g show "\<exists>d'. create_schedule aff d (Resolved (Some body))
                  = ((201, ScheduleCreated (js_number i)), d') \<and>
             (\<bar>i\<bar> \<le> 2 ^ 53 \<longrightarrow> js_number i = i) \<and>
             (\<forall>r param. all_digits param \<and> r (JStr param) = Some i \<longrightarrow>
                (\<exists>row. get_schedule r d' param = (200, ScheduleFound row) \<and>
                   s_id row = i \<and>
                   map_option JStr (s_time row) = Some tv \<and>
                   s_lawyer row = column (bind_text aff lawyer) \<and>
                   s_client row = column (bind_text aff client) \<and>
                   s_date row = column (bind_text aff date) \<and>
                   (\<forall>s. lawyer = JStr s \<longrightarrow> s_lawyer row = Some s) \<and>
                   (\<forall>s. client = JStr s \<longrightarrow> s_client row = Some s) \<and>
                   (\<forall>s. date = JStr s \<longrightarrow> s_date row = Some s) \<and>
                   s_process_number row =
                     column (bind_text aff (or_empty_text (b_process_number body))) \<and>
                   s_notes row = column (bind_text aff (or_empty_text (b_notes body))) \<and>
                   (\<not> truthy_prop (b_process_number body) \<longrightarrow> s_process_number row = Some []) \<and>
                   (\<forall>s. b_process_number body = Some (JStr s) \<longrightarrow> s_process_number row = Some s) \<and>
                   (\<not> truthy_prop (b_notes body) \<longrightarrow> s_notes row = Some []) \<and>
                   (\<forall>s. b_notes body = Some (JStr s) \<longrightarrow> s_notes row = Some s) \<and>
                   s_online row = (if truthy_prop (b_online body) then 1 else 0)))"
    by blast
qed

text \<open>
  On the sample database, with the sample affinity: a request whose lawyer is the number
  123 and whose online is the string yes is answered 201 with the id 6, and the row
  fetched by 6 has the lawyer as the text 123, the other strings as they were sent, an
  empty process number and online 1; with an array as client the answer is 500.
\<close>

theorem create_then_get_schedule_witness:
  "fst (create_schedule sample_affinity sample_db
      (Resolved (Some (empty_body\<lparr>b_lawyer := Some (JNum 123), b_client := Some (JStr ''Eva''),
         b_online := Some (JStr ''yes''), b_date := Some (JStr ''2024-03-01''),
         b_time := Some (JStr ''10:15''), b_notes := Some (JStr ''bring papers'')\<rparr>))))
     = (201, ScheduleCreated 6)
   \<and> get_schedule sample_rowid (snd (create_schedule sample_affinity sample_db
      (Resolved (Some (empty_body\<lparr>b_lawyer := Some (JNum 123), b_client := Some (JStr ''Eva''),
         b_online := Some (JStr ''yes''), b_date := Some (JStr ''2024-03-01''),
         b_time := Some (JStr ''10:15''), b_notes := Some (JStr ''bring papers'')\<rparr>))))) ''6''
     = (200, ScheduleFound \<lparr>s_id = 6, s_lawyer = Some ''123'', s_client = Some ''Eva'',
          s_process_number = Some [], s_online = 1, s_date = Some ''2024-03-01'',
          s_time = Some ''10:15'', s_notes = Some ''bring papers''\<rparr>)
   \<and> create_schedule sample_affinity sample_db
      (Resolved (Some (empty_body\<lparr>b_lawyer := Some (JNum 123),
         b_client := Some (JArr [JStr ''Eva'']),
         b_date := Some (JStr ''2024-03-01''), b_time := Some (JStr ''10:15'')\<rparr>)))
     = ((500, Error InternalError), sample_db)"
proof -
  let ?b = "empty_body\<lparr>b_lawyer := Some (JNum 123), b_client := Some (JStr ''Eva''),
         b_online := Some (JStr ''yes''), b_date := Some (JStr ''2024-03-01''),
         b_time := Some (JStr ''10:15''), b_notes := Some (JStr ''bring papers'')\<rparr>"
  let ?a = "empty_body\<lparr>b_lawyer := Some (JNum 123), b_client := Some (JArr [JStr ''Eva'']),
         b_date := Some (JStr ''2024-03-01''), b_time := Some (JStr ''10:15'')\<rparr>"
  have v: "validateHour (JStr ''10:15'')"
    by (simp add: is_digit_def parseInt10_def digit_val_def)
  have db: "\<not> db_error sample_db" "\<not> db_full sample_db"
    by (simp_all add: sample_db_def)
  have r: "next_rowid (schedules_seq sample_db) (map s_id (schedules sample_db)) = Some 6"
    by (simp add: next_rowid_def max_rowid_def sample_db_def sample_schedules_def)
  have s: "\<bar>6 :: int\<bar> \<le> 2 ^ 53"
    by simp
  have t: "truthy (JNum 123)" "truthy (JStr ''Eva'')" "truthy (JStr ''2024-03-01'')"
    "truthy (JArr [JStr ''Eva''])"
    by simp_all
  have b: "b_lawyer ?b = Some (JNum 123)" "b_client ?b = Some (JStr ''Eva'')"
    "b_date ?b = Some (JStr ''2024-03-01'')" "b_time ?b = Some (JStr ''10:15'')"
    by simp_all
  have a: "b_lawyer ?a = Some (JNum 123)" "b_client ?a = Some (JArr [JStr ''Eva''])"
    "b_date ?a = Some (JStr ''2024-03-01'')" "b_time ?a = Some (JStr ''10:15'')"
    by simp_all
  have o: "b_process_number ?b = None" "b_notes ?b = Some (JStr ''bring papers'')"
    "b_online ?b = Some (JStr ''yes'')"
    by (simp_all add: empty_body_def)
  have l: "sample_affinity (JNum 123) = SqlText ''123''"
    by code_simp
  have ub: "Unbindable \<notin> {bind_text sample_affinity (JNum 123),
            bind_text sample_affinity (JStr ''Eva''),
            bind_text sample_affinity (JStr ''2024-03-01''),
            bind_text sample_affinity (or_empty_text (b_process_number ?b)),
            bind_text sample_affinity (or_empty_text (b_notes ?b))}"
    by (simp add: l o del: sample_affinity.simps)
  have ua: "Unbindable \<in> {bind_text sample_affinity (JNum 123),
            bind_text sample_affinity (JArr [JStr ''Eva'']),
            bind_text sample_affinity (JStr ''2024-03-01''),
            bind_text sample_affinity (or_empty_text (b_process_number ?a)),
            bind_text sample_affinity (or_empty_text (b_notes ?a))}"
    by simp
  note tb = create_then_get_schedule [OF b(1) t(1) b(2) t(2) b(3) t(3) b(4) v db r,
      of sample_affinity]
  note ta = create_then_get_schedule [OF a(1) t(1) a(2) t(4) a(3) t(3) a(4) v db r,
      of sample_affinity]
  from tb [THEN conjunct2, THEN mp, OF ub]
  obtain d' where x: "create_schedule sample_affinity sample_db (Resolved (Some ?b))
        = ((201, ScheduleCreated (js_number 6)), d') \<and>
      (\<bar>6 :: int\<bar> \<le> 2 ^ 53 \<longrightarrow> js_number 6 = 6) \<and>
      (\<forall>r param. all_digits param \<and> r (JStr param) = Some 6 \<longrightarrow>
                (\<exists>row. get_schedule r d' param = (200, ScheduleFound row) \<and>
                   s_id row = 6 \<and>
                   map_option JStr (s_time row) = Some (JStr ''10:15'') \<and>
                   s_lawyer row = column (bind_text sample_affinity (JNum 123)) \<and>
                   s_client row = column (bind_text sample_affinity (JStr ''Eva'')) \<and>
                   s_date row = column (bind_text sample_affinity (JStr ''2024-03-01'')) \<and>
                   (\<forall>s. JNum 123 = JStr s \<longrightarrow> s_lawyer row = Some s) \<and>
                   (\<forall>s. JStr ''Eva'' = JStr s \<longrightarrow> s_client row = Some s) \<and>
                   (\<forall>s. JStr ''2024-03-01'' = JStr s \<longrightarrow> s_date row = Some s) \<and>
                   s_process_number row =
                     column (bind_text sample_affinity (or_empty_text (b_process_number ?b))) \<and>
                   s_notes row = column (bind_text sample_affinity (or_empty_text (b_notes ?b))) \<and>
                   (\<not> truthy_prop (b_process_number ?b) \<longrightarrow> s_process_number row = Some []) \<and>
                   (\<forall>s. b_process_number ?b = Some (JStr s) \<longrightarrow> s_process_number row = Some s) \<and>
                   (\<not> truthy_prop (b_notes ?b) \<longrightarrow> s_notes row = Some []) \<and>
                   (\<forall>s. b_notes ?b = Some (JStr s) \<longrightarrow> s_notes row = Some s) \<and>
                   s_online row = (if truthy_prop (b_online ?b) then 1 else 0)))"
    ..
  note c0 = x [THEN conjunct1] and j = x [THEN conjunct2, THEN conjunct1]
    and g = x [THEN conjunct2, THEN conjunct2]
  have c: "create_schedule sample_affinity sample_db (Resolved (Some ?b))
        = ((201, ScheduleCreated 6), d')"
    using c0 j s by simp
  have k: "all_digits ''6'' \<and> sample_rowid (JStr ''6'') = Some 6"
    by (simp add: all_digits_def is_digit_def parseInt10_def digit_val_def)
  from g [rule_format, of "''6''" sample_rowid, OF k]
  obtain row where row: "get_schedule sample_rowid d' ''6'' = (200, ScheduleFound row)"
    "s_id row = 6" "map_option JStr (s_time row) = Some (JStr ''10:15'')"
    "s_lawyer row = column (bind_text sample_affinity (JNum 123))"
    "s_client row = Some ''Eva''" "s_date row = Some ''2024-03-01''"
    "s_process_number row = Some []" "s_notes row = Some ''bring papers''"
    "s_online row = 1"
    unfolding o by auto
  have "s_time row = Some ''10:15''"
    using row(3) by (cases "s_time row") simp_all
  with row(2,4-) have "row = \<lparr>s_id = 6, s_lawyer = Some ''123'', s_client = Some ''Eva'',
          s_process_number = Some [], s_online = 1, s_date = Some ''2024-03-01'',
          s_time = Some ''10:15'', s_notes = Some ''bring papers''\<rparr>"
    by (cases row) (simp add: l del: sample_affinity.simps)
  with row(1) c have 1: "fst (create_schedule sample_affinity sample_db (Resolved (Some ?b)))
     = (201, ScheduleCreated 6)"
    and 2: "get_schedule sample_rowid
       (snd (create_schedule sample_affinity sample_db (Resolved (Some ?b)))) ''6''
     = (200, ScheduleFound \<lparr>s_id = 6, s_lawyer = Some ''123'', s_client = Some ''Eva'',
          s_process_number = Some [], s_online = 1, s_date = Some ''2024-03-01'',
          s_time = Some ''10:15'', s_notes = Some ''bring papers''\<rparr>)"
    by simp_all
  have 3: "create_schedule sample_affinity sample_db (Resolved (Some ?a))
     = ((500, Error InternalError), sample_db)"
    using ta [THEN conjunct1, rule_format, OF ua] .
  from 1 2 3 show ?thesis
    by (intro conjI)
qed

section \<open>Properties of the calendar projection\<close>



lemma DayFromYear_after_1970: "0 \<le> k \<Longrightarrow> DayFromYear (1970 + k) \<le> 366 * k"
proof (induction k rule: int_ge_induct)
  case base
  show ?case by (simp add: DayFromYear_def)
next
  case (step i)
  then show ?case
    using DayFromYear_step [of "1970 + i"] DaysInYear_bounds [of "1970 + i"]
    by (simp add: algebra_simps)
qed

lemma DayFromYear_before_1970: "k \<le> 0 \<Longrightarrow> DayFromYear (1970 + k) \<le> 365 * k"
proof (induction k rule: int_le_induct)
  case base
  show ?case by (simp add: DayFromYear_def)
next
  case (step i)
  then show ?case
    using DayFromYear_step [of "1970 + i - 1"] DaysInYear_bounds [of "1970 + i - 1"]
    by (simp add: algebra_simps)
qed

lemma year_start_not_after:
  "DayFromYear (1970 + (if 0 \<le> d then d div 366 else d div 365)) \<le> d"
proof (cases "0 \<le> d")
  case True
  then have "0 \<le> d div 366"
    by simp
  from DayFromYear_after_1970 [OF this] True show ?thesis
    by simp
next
  case False
  then have "d div 365 \<le> 0"
    by simp
  from DayFromYear_before_1970 [OF this] False show ?thesis
    by simp
qed

lemma year_search_bounds:
  "DayFromYear y \<le> d \<Longrightarrow>
     DayFromYear (year_search y d) \<le> d \<and> d < DayFromYear (year_search y d + 1)"
proof (induction y d rule: year_search.induct)
  case (1 y d)
  show ?case
  proof (cases "DayFromYear (y + 1) \<le> d")
    case True
    with "1.IH" show ?thesis
      by (subst (1 2) year_search.simps) simp
  next
    case False
    with "1.prems" show ?thesis
      by (subst (1 2) year_search.simps) simp
  qed
qed

lemma YearFromDay_bounds:
  "DayFromYear (YearFromDay d) \<le> d \<and> d < DayFromYear (YearFromDay d + 1)"
  unfolding YearFromDay_def by (rule year_search_bounds) (rule year_start_not_after)


lemma DayWithinYear_bounds:
  "0 \<le> DayWithinYear d \<and> DayWithinYear d < 365 + InLeapYear (YearFromDay d)"
  using YearFromDay_bounds [of d] DayFromYear_step [of "YearFromDay d"]
    DaysInYear_bounds [of "YearFromDay d"]
  by (auto simp: DayWithinYear_def InLeapYear_def)


lemma WeekDay_bounds: "0 \<le> WeekDay d \<and> WeekDay d \<le> 6"
  by (simp add: WeekDay_def)





































end
